theory Spec2Isabelle
  imports Complex_Main "HOL-Library.AList" "HOL-Library.Multiset" "HOL-Library.Sublist"
    "HOL-Library.Product_Lexorder"
begin

section \<open>Signals, periods and errors\<close>

text \<open>
  A clock is a migen \<open>Signal\<close>. The build code only ever uses its identity (as a
  dictionary key and as a member of a tuple in a set) and its \<open>duid\<close>, the number the
  design assigns to every object when it is created. Two signal objects are the same
  object exactly when their \<open>duid\<close>s agree, so a signal is modelled by its \<open>duid\<close>.
\<close>

datatype signal = Signal (duid: nat)

text \<open>
  Periods are Python floats in nanoseconds. They are modelled as exact rationals: the
  bookkeeping below only compares periods and rounds them down to a multiple of
  \<open>0.001\<close>, written \<open>math.floor(period*1e3)/1e3\<close> in the source.
\<close>

type_synonym period = rat

definition round_ps :: "period \<Rightarrow> period" where
  "round_ps p = of_int \<lfloor>p * 1000\<rfloor> / 1000"

text \<open>
  Every \<open>raise\<close> of the source is a constructor. \<open>ValueError_constrained old new\<close> is
  the \<open>ValueError\<close> of \<open>add_period_constraint\<close>, whose message is built from the
  recorded and the new period; \<open>OSError msg\<close> carries its message; \<open>External\<close> stands for
  whatever a collaborator outside these files (the platform, the design) raises.
\<close>

datatype error =
    ValueError_constrained period period
  | ValueError_device string
  | ValueError_unpack
  | OSError string
  | NotImplementedError
  | IndexError
  | AssertionError
  | ZeroDivisionError
  | External string

section \<open>Constraint bookkeeping of the toolchains\<close>

text \<open>
  The toolchain classes keep \<open>self.clocks\<close>, a dictionary from clock to period, and
  (Microsemi) \<open>self.false_paths\<close>, a set of pairs of clocks. A dictionary is an
  association list in insertion order; assigning to a key that is present keeps its
  position, assigning to a new key appends (\<open>AList.update\<close>). The set is the list of its
  elements in iteration order. \<open>attr s\<close> is the \<open>attr\<close> set of the signal object \<open>s\<close>,
  which \<open>clk.attr.add("keep")\<close> mutates. One record holds the fields of all four classes;
  a class reads and writes only its own.
\<close>

record toolchain =
  clocks :: "(signal \<times> period) list"
  false_paths :: "(signal \<times> signal) list"
  additional_io_constraints :: "string list"
  additional_fp_constraints :: "string list"
  additional_timing_constraints :: "string list"
  toolchain_sh :: string
  attr :: "signal \<Rightarrow> string set"

definition init_toolchain :: "string \<Rightarrow> toolchain" where
  "init_toolchain sh =
     \<lparr>clocks = [], false_paths = [], additional_io_constraints = [],
      additional_fp_constraints = [], additional_timing_constraints = [],
      toolchain_sh = sh, attr = (\<lambda>_. {})\<rparr>"

text \<open>
  \<open>TangDinastyToolchain.add_period_constraint\<close> (anlogic.py) and
  \<open>OSFPGAToolchain.add_period_constraint\<close> (osfpga.py) have the same body: mark the
  clock, round, compare with the recorded period, raise or store. The result pairs the
  outcome with the state the call leaves behind, also when it raises.
\<close>

definition anlogic_add_period_constraint ::
  "toolchain \<Rightarrow> signal \<Rightarrow> period \<Rightarrow> (error + unit) \<times> toolchain" where
  "anlogic_add_period_constraint self clk period0 =
     (let self1 = self\<lparr>attr := (attr self)(clk := insert ''keep'' (attr self clk))\<rparr>;
          period = round_ps period0
      in if map_of (clocks self1) clk \<noteq> None \<and> period \<noteq> the (map_of (clocks self1) clk)
         then (Inl (ValueError_constrained (the (map_of (clocks self1) clk)) period), self1)
         else (Inr (), self1\<lparr>clocks := AList.update clk period (clocks self1)\<rparr>))"

definition osfpga_add_period_constraint ::
  "toolchain \<Rightarrow> signal \<Rightarrow> period \<Rightarrow> (error + unit) \<times> toolchain" where
  "osfpga_add_period_constraint self clk period0 =
     (let self1 = self\<lparr>attr := (attr self)(clk := insert ''keep'' (attr self clk))\<rparr>;
          period = round_ps period0
      in if map_of (clocks self1) clk \<noteq> None \<and> period \<noteq> the (map_of (clocks self1) clk)
         then (Inl (ValueError_constrained (the (map_of (clocks self1) clk)) period), self1)
         else (Inr (), self1\<lparr>clocks := AList.update clk period (clocks self1)\<rparr>))"

text \<open>
  \<open>MicrosemiLiberoSoCPolarfireToolchain.add_period_constraint\<close> (libero_soc.py) has
  neither the \<open>keep\<close> mark nor the rounding line: it compares and stores the period as
  given.
\<close>

definition microsemi_add_period_constraint ::
  "toolchain \<Rightarrow> signal \<Rightarrow> period \<Rightarrow> (error + unit) \<times> toolchain" where
  "microsemi_add_period_constraint self clk period =
     (if map_of (clocks self) clk \<noteq> None \<and> period \<noteq> the (map_of (clocks self) clk)
      then (Inl (ValueError_constrained (the (map_of (clocks self) clk)) period), self)
      else (Inr (), self\<lparr>clocks := AList.update clk period (clocks self)\<rparr>))"

text \<open>
  \<open>add_false_path_constraint\<close> (libero_soc.py): \<open>set.add\<close> leaves a set that already
  holds the element as it is (\<open>frm\<close> is the source's \<open>from_\<close>). The method has no \<open>raise\<close>; it returns \<open>None\<close>.
\<close>

definition set_add :: "'a \<Rightarrow> 'a list \<Rightarrow> 'a list" where
  "set_add x xs = (if x \<in> set xs then xs else xs @ [x])"

definition add_false_path_constraint ::
  "toolchain \<Rightarrow> signal \<Rightarrow> signal \<Rightarrow> (error + unit) \<times> toolchain" where
  "add_false_path_constraint self frm to =
     (if (to, frm) \<notin> set (false_paths self)
      then (Inr (), self\<lparr>false_paths := set_add (frm, to) (false_paths self)\<rparr>)
      else (Inr (), self))"

text \<open>A sequence of \<open>add_false_path_constraint\<close> calls, each on the state the last left.\<close>

fun add_false_paths :: "toolchain \<Rightarrow> (signal \<times> signal) list \<Rightarrow> toolchain" where
  "add_false_paths self [] = self"
| "add_false_paths self ((a, b) # cs) =
     add_false_paths (snd (add_false_path_constraint self a b)) cs"

text \<open>The number of stored pairs that join \<open>a\<close> and \<open>b\<close>, in either direction.\<close>

definition stored_pairs :: "toolchain \<Rightarrow> signal \<Rightarrow> signal \<Rightarrow> nat" where
  "stored_pairs self a b =
     length (filter (\<lambda>p. p = (a, b) \<or> p = (b, a)) (false_paths self))"

text \<open>
  Reachable false-path sets hold no pair twice and never hold a pair together with its
  reverse, except for a pair \<open>(a, a)\<close>, which is its own reverse.
\<close>

definition fp_inv :: "toolchain \<Rightarrow> bool" where
  "fp_inv self \<longleftrightarrow>
     distinct (false_paths self) \<and>
     (\<forall>x y. (x, y) \<in> set (false_paths self) \<longrightarrow> (y, x) \<in> set (false_paths self) \<longrightarrow> x = y)"

section \<open>Text helpers\<close>

text \<open>\<open>sep.join(xs)\<close> and \<open>str(i)\<close> for a non-negative integer.\<close>

fun join :: "string \<Rightarrow> string list \<Rightarrow> string" where
  "join sep [] = []"
| "join sep [x] = x"
| "join sep (x # y # ys) = x @ sep @ join sep (y # ys)"

definition digit :: "nat \<Rightarrow> char" where
  "digit d = ''0123456789'' ! d"

fun str_nat :: "nat \<Rightarrow> string" where
  "str_nat n = (if n < 10 then [digit n] else str_nat (n div 10) @ [digit (n mod 10)])"

declare str_nat.simps [simp del]

text \<open>
  What the emitters call but these files do not define: \<open>str\<close> of a float and of a
  signal object, and the identifier list that \<open>Pins(pin)\<close> of \<open>generic_platform\<close>
  builds from a pin string. They are parameters of the model.
\<close>

record externals =
  str_float :: "period \<Rightarrow> string"
  str_signal :: "signal \<Rightarrow> string"
  pins_identifiers :: "string \<Rightarrow> string list"

text \<open>
  The constraint objects of \<open>generic_platform\<close> that reach the IO emitters: \<open>Pins\<close> with
  its \<open>identifiers\<close>, \<open>IOStandard\<close> with its \<open>name\<close>, \<open>Misc\<close> with its \<open>misc\<close>, and
  every other class. A resolved signal is \<open>(name, pins, others, resource)\<close>.
\<close>

datatype constraint =
    Pins (identifiers: "string list")
  | IOStandard (name: string)
  | Misc (misc: string)
  | OtherConstraint string

type_synonym named_sc = "(string \<times> string list \<times> constraint list \<times> string) list"

type_synonym namespace = "signal \<Rightarrow> string"

text \<open>A list comprehension over a function that may raise: the first error wins.\<close>

fun map_err :: "('a \<Rightarrow> error + 'b) \<Rightarrow> 'a list \<Rightarrow> error + 'b list" where
  "map_err f [] = Inr []"
| "map_err f (x # xs) =
     (case f x of
        Inl e \<Rightarrow> Inl e
      | Inr y \<Rightarrow> (case map_err f xs of Inl e \<Rightarrow> Inl e | Inr ys \<Rightarrow> Inr (y # ys)))"

section \<open>Timing-constraint emitters\<close>

text \<open>
  \<open>_build_sdc\<close> of anlogic.py and of osfpga.py build the same text; they differ in the
  name of the file they write. \<open>sorted(clocks.items(), key=lambda x: x[0].duid)\<close> is a
  stable sort of the dictionary's items by the clock's \<open>duid\<close>.
\<close>

definition create_clock_line :: "externals \<Rightarrow> namespace \<Rightarrow> signal \<times> period \<Rightarrow> string" where
  "create_clock_line ext vns = (\<lambda>(clk, period).
     ''create_clock -name '' @ vns clk @ '' -period '' @ str_float ext period @
     '' [get_ports {'' @ vns clk @ ''}]'')"

definition anlogic_build_sdc :: "externals \<Rightarrow> (signal \<times> period) list \<Rightarrow> namespace \<Rightarrow> string" where
  "anlogic_build_sdc ext clks vns =
     join ''\<newline>'' (map (create_clock_line ext vns) (sort_key (\<lambda>x. duid (fst x)) clks))"

definition osfpga_build_sdc :: "externals \<Rightarrow> (signal \<times> period) list \<Rightarrow> namespace \<Rightarrow> string" where
  "osfpga_build_sdc ext clks vns =
     join ''\<newline>'' (map (create_clock_line ext vns) (sort_key (\<lambda>x. duid (fst x)) clks))"

text \<open>
  \<open>_build_timing_sdc\<close> of libero_soc.py. In the clock line \<open>.format\<close> applies to the
  last string literal only, so \<open>-name {clk}\<close> is emitted as it stands; the false-path
  line formats the two signal objects themselves.
\<close>

definition microsemi_clock_line :: "externals \<Rightarrow> namespace \<Rightarrow> signal \<times> period \<Rightarrow> string" where
  "microsemi_clock_line ext vns = (\<lambda>(clk, period).
     ''create_clock -name {clk} -period '' @ str_float ext period @
     '' [get_nets '' @ vns clk @ '']'')"

definition microsemi_false_path_line :: "externals \<Rightarrow> signal \<times> signal \<Rightarrow> string" where
  "microsemi_false_path_line ext = (\<lambda>(frm, to).
     ''set_clock_groups '' @
     ''-group [get_clocks -include_generated_clocks -of [get_nets '' @ str_signal ext frm @ '']] '' @
     ''-group [get_clocks -include_generated_clocks -of [get_nets '' @ str_signal ext to @ '']] '' @
     ''-asynchronous'')"

definition microsemi_build_timing_sdc ::
  "externals \<Rightarrow> namespace \<Rightarrow> (signal \<times> period) list \<Rightarrow> (signal \<times> signal) list \<Rightarrow>
   string list \<Rightarrow> string" where
  "microsemi_build_timing_sdc ext vns clks fps additional =
     join ''\<newline>''
       (map (microsemi_clock_line ext vns) (sort_key (\<lambda>x. duid (fst x)) clks) @
        map (microsemi_false_path_line ext)
          (sort_key (\<lambda>x. (duid (fst x), duid (snd x))) fps) @
        additional)"

section \<open>IO-constraint emitters\<close>

text \<open>
  The three emitters walk \<open>named_sc\<close> in order. A signal with more than one pin gives
  one entry per pin, named with the index \<open>enumerate\<close> hands out; otherwise the entry is
  for \<open>pins[0]\<close>, which raises \<open>IndexError\<close> on an empty list.
\<close>

definition indexed :: "string \<Rightarrow> string \<Rightarrow> string \<Rightarrow> nat \<Rightarrow> string" where
  "indexed sig l r i = sig @ l @ str_nat i @ r"

text \<open>\<open>_build_adc\<close> of anlogic.py: only \<open>IOStandard\<close> constraints are written.\<close>

fun anlogic_flat_sc ::
  "(string \<times> string \<times> constraint list) list \<Rightarrow> named_sc \<Rightarrow>
   error + (string \<times> string \<times> constraint list) list" where
  "anlogic_flat_sc flat_sc [] = Inr flat_sc"
| "anlogic_flat_sc flat_sc ((nm, pins, other, resource) # rest) =
     (if length pins > 1
      then anlogic_flat_sc
             (flat_sc @ map (\<lambda>(i, p). (indexed nm ''['' '']'' i, p, other)) (enumerate 0 pins)) rest
      else (case pins of
              [] \<Rightarrow> Inl IndexError
            | p # _ \<Rightarrow> anlogic_flat_sc (flat_sc @ [(nm, p, other)]) rest))"

definition isinstance_IOStandard :: "constraint \<Rightarrow> bool" where
  "isinstance_IOStandard c = (case c of IOStandard _ \<Rightarrow> True | _ \<Rightarrow> False)"

definition anlogic_adc_line :: "string \<times> string \<times> constraint list \<Rightarrow> string" where
  "anlogic_adc_line = (\<lambda>(nm, pin, other).
     ''set_pin_assignment {'' @ nm @ ''} { LOCATION = '' @ pin @ ''; '' @
     concat (map (\<lambda>c. '' IOSTANDARD = '' @ name c @ ''; '') (filter isinstance_IOStandard other)) @
     ''}}'')"

definition anlogic_build_adc :: "named_sc \<Rightarrow> string list \<Rightarrow> error + string" where
  "anlogic_build_adc named_sc named_pc =
     (case anlogic_flat_sc [] named_sc of
        Inl e \<Rightarrow> Inl e
      | Inr flat_sc \<Rightarrow> Inr (join ''\<newline>'' (map anlogic_adc_line flat_sc @ named_pc)))"

text \<open>
  \<open>_format_io_constraint\<close>, \<open>_format_io_pdc\<close> and \<open>_build_io_pdc\<close> of libero_soc.py:
  every constraint of the signal is formatted; a class the formatter does not know
  raises \<open>NotImplementedError\<close>.
\<close>

fun microsemi_format_io_constraint :: "constraint \<Rightarrow> error + string" where
  "microsemi_format_io_constraint (Pins ids) =
     (case ids of [] \<Rightarrow> Inl IndexError | i # _ \<Rightarrow> Inr (''-pin_name '' @ i @ '' ''))"
| "microsemi_format_io_constraint (IOStandard n) = Inr (''-io_std '' @ n @ '' '')"
| "microsemi_format_io_constraint (Misc m) = Inr (''-RES_PULL '' @ m @ '' '')"
| "microsemi_format_io_constraint (OtherConstraint _) = Inl NotImplementedError"

definition tcl_name :: "string \<Rightarrow> string" where
  "tcl_name n = ''{'' @ n @ ''}''"

definition microsemi_format_io_pdc ::
  "externals \<Rightarrow> string \<Rightarrow> string \<Rightarrow> constraint list \<Rightarrow> error + string" where
  "microsemi_format_io_pdc ext signame pin others =
     (case map_err microsemi_format_io_constraint (Pins (pins_identifiers ext pin) # others) of
        Inl e \<Rightarrow> Inl e
      | Inr fmt_c \<Rightarrow>
          Inr (''set_io '' @ ''-port_name '' @ tcl_name signame @ '' '' @ concat fmt_c @
               ''-fixed true '' @ ''\<newline>''))"

fun microsemi_io_pdc_pins ::
  "externals \<Rightarrow> string \<Rightarrow> constraint list \<Rightarrow> string \<Rightarrow> (nat \<times> string) list \<Rightarrow> error + string" where
  "microsemi_io_pdc_pins ext sig others pdc [] = Inr pdc"
| "microsemi_io_pdc_pins ext sig others pdc ((i, p) # ips) =
     (case microsemi_format_io_pdc ext (indexed sig ''['' '']'' i) p others of
        Inl e \<Rightarrow> Inl e
      | Inr r \<Rightarrow> microsemi_io_pdc_pins ext sig others (pdc @ r) ips)"

fun microsemi_io_pdc_loop :: "externals \<Rightarrow> string \<Rightarrow> named_sc \<Rightarrow> error + string" where
  "microsemi_io_pdc_loop ext pdc [] = Inr pdc"
| "microsemi_io_pdc_loop ext pdc ((sig, pins, others, resname) # rest) =
     (if length pins > 1
      then (case microsemi_io_pdc_pins ext sig others pdc (enumerate 0 pins) of
              Inl e \<Rightarrow> Inl e
            | Inr pdc' \<Rightarrow> microsemi_io_pdc_loop ext pdc' rest)
      else (case pins of
              [] \<Rightarrow> Inl IndexError
            | p # _ \<Rightarrow>
                (case microsemi_format_io_pdc ext sig p others of
                   Inl e \<Rightarrow> Inl e
                 | Inr r \<Rightarrow> microsemi_io_pdc_loop ext (pdc @ r) rest)))"

definition microsemi_build_io_pdc ::
  "externals \<Rightarrow> named_sc \<Rightarrow> string list \<Rightarrow> string list \<Rightarrow> error + string" where
  "microsemi_build_io_pdc ext named_sc named_pc additional =
     (case microsemi_io_pdc_loop ext [] named_sc of
        Inl e \<Rightarrow> Inl e
      | Inr pdc \<Rightarrow> Inr (pdc @ join ''\<newline>'' additional))"

text \<open>
  \<open>_format_io_pcf\<close> and \<open>_build_io_pcf\<close> of symbiflow.py: the entry is the signal name
  and the first identifier of the pin; \<open>others\<close> is not read.
\<close>

definition symbiflow_format_io_pcf ::
  "externals \<Rightarrow> string \<Rightarrow> string \<Rightarrow> constraint list \<Rightarrow> error + string" where
  "symbiflow_format_io_pcf ext signame pin others =
     (case pins_identifiers ext pin of
        [] \<Rightarrow> Inl IndexError
      | i # _ \<Rightarrow> Inr (''set_io '' @ signame @ '' '' @ i @ ''\<newline>''))"

fun symbiflow_io_pcf_pins ::
  "externals \<Rightarrow> string \<Rightarrow> constraint list \<Rightarrow> string \<Rightarrow> (nat \<times> string) list \<Rightarrow> error + string" where
  "symbiflow_io_pcf_pins ext sig others pcf [] = Inr pcf"
| "symbiflow_io_pcf_pins ext sig others pcf ((i, p) # ips) =
     (case symbiflow_format_io_pcf ext (indexed sig ''('' '')'' i) p others of
        Inl e \<Rightarrow> Inl e
      | Inr r \<Rightarrow> symbiflow_io_pcf_pins ext sig others (pcf @ r) ips)"

fun symbiflow_io_pcf_loop :: "externals \<Rightarrow> string \<Rightarrow> named_sc \<Rightarrow> error + string" where
  "symbiflow_io_pcf_loop ext pcf [] = Inr pcf"
| "symbiflow_io_pcf_loop ext pcf ((sig, pins, others, resname) # rest) =
     (if length pins > 1
      then (case symbiflow_io_pcf_pins ext sig others pcf (enumerate 0 pins) of
              Inl e \<Rightarrow> Inl e
            | Inr pcf' \<Rightarrow> symbiflow_io_pcf_loop ext pcf' rest)
      else (case pins of
              [] \<Rightarrow> Inl IndexError
            | p # _ \<Rightarrow>
                (case symbiflow_format_io_pcf ext sig p others of
                   Inl e \<Rightarrow> Inl e
                 | Inr r \<Rightarrow> symbiflow_io_pcf_loop ext (pcf @ r) rest)))"

definition symbiflow_build_io_pcf :: "externals \<Rightarrow> named_sc \<Rightarrow> string list \<Rightarrow> error + string" where
  "symbiflow_build_io_pcf ext named_sc named_pc = symbiflow_io_pcf_loop ext [] named_sc"

section \<open>Project files and build scripts\<close>

text \<open>
  \<open>_build_al\<close> of anlogic.py. \<open>date\<close> is the reading
  \<open>datetime.datetime.now().strftime("%Y-%m-%d %H:%M:%S")\<close> the function takes when it
  starts; it is written into the project file twice. Sources are
  \<open>(path, language, library)\<close>.
\<close>

type_synonym source = "string \<times> string \<times> string"

definition al_file_entry :: "source \<Rightarrow> string list" where
  "al_file_entry = (\<lambda>(f, typ, lib).
     [''            <File Path=\"'' @ f @ ''\">'',
      ''                <FileInfo>'',
      ''                    <Attr Name=\"UsedInSyn\" Val=\"true\"/>'',
      ''                    <Attr Name=\"UsedInP&R\" Val=\"true\"/>'',
      ''                    <Attr Name=\"BelongTo\" Val=\"design_1\"/>'',
      ''                    <Attr Name=\"CompileOrder\" Val=\"1\"/>'',
      ''               </FileInfo>'',
      ''            </File>''])"

definition anlogic_build_al :: "string \<Rightarrow> string \<Rightarrow> string \<Rightarrow> string \<Rightarrow> source list \<Rightarrow> string" where
  "anlogic_build_al date nm fam dev fs =
     join ''\<newline>''
      ([''<?xml version=\"1.0\" encoding=\"UTF-8\"?>'',
       ''<Project Version=\"1\" Path=\"...\">'',
       ''    <Project_Created_Time>'' @ date @ ''</Project_Created_Time>'',
       ''    <TD_Version>5.0.28716</TD_Version>'',
       ''    <UCode>00000000</UCode>'',
       ''    <Name>'' @ nm @ ''</Name>'',
       ''    <HardWare>'',
       ''        <Family>'' @ fam @ ''</Family>'',
       ''        <Device>'' @ dev @ ''</Device>'',
       ''    </HardWare>'',
       ''    <Source_Files>'',
       ''        <Verilog>''] @
       concat (map al_file_entry fs) @
       [''        </Verilog>'',
       ''        <ADC_FILE>'',
       ''            <File Path=\"top.adc\">'',
       ''                <FileInfo>'',
       ''                    <Attr Name=\"UsedInSyn\" Val=\"true\"/>'',
       ''                    <Attr Name=\"UsedInP&R\" Val=\"true\"/>'',
       ''                    <Attr Name=\"BelongTo\" Val=\"constrain_1\"/>'',
       ''                    <Attr Name=\"CompileOrder\" Val=\"1\"/>'',
       ''               </FileInfo>'',
       ''            </File>'',
       ''        </ADC_FILE>'',
       ''        <SDC_FILE>'',
       ''            <File Path=\"top.sdc\">'',
       ''                <FileInfo>'',
       ''                    <Attr Name=\"UsedInSyn\" Val=\"true\"/>'',
       ''                    <Attr Name=\"UsedInP&R\" Val=\"true\"/>'',
       ''                    <Attr Name=\"BelongTo\" Val=\"constrain_1\"/>'',
       ''                    <Attr Name=\"CompileOrder\" Val=\"2\"/>'',
       ''               </FileInfo>'',
       ''            </File>'',
       ''        </SDC_FILE>'',
       ''    </Source_Files>'',
       ''   <FileSets>'',
       ''        <FileSet Name=\"constrain_1\" Type=\"ConstrainFiles\">'',
       ''        </FileSet>'',
       ''        <FileSet Name=\"design_1\" Type=\"DesignFiles\">'',
       ''        </FileSet>'',
       ''    </FileSets>'',
       ''    <TOP_MODULE>'',
       ''        <LABEL></LABEL>'',
       ''        <MODULE>'' @ nm @ ''</MODULE>'',
       ''        <CREATEINDEX>auto</CREATEINDEX>'',
       ''    </TOP_MODULE>'',
       ''    <Property>'',
       ''    </Property>'',
       ''    <Device_Settings>'',
       ''    </Device_Settings>'',
       ''    <Configurations>'',
       ''    </Configurations>'',
       ''    <Project_Settings>'',
       ''        <Step_Last_Change>'' @ date @ ''</Step_Last_Change>'',
       ''        <Current_Step>0</Current_Step>'',
       ''        <Step_Status>true</Step_Status>'',
       ''    </Project_Settings>'',
       ''</Project>''])"

text \<open>\<open>_build_tcl\<close> and \<open>parse_device\<close> of anlogic.py.\<close>

definition anlogic_build_tcl :: "string \<Rightarrow> string \<Rightarrow> string \<Rightarrow> string" where
  "anlogic_build_tcl nm architecture package =
     join ''\<newline>''
      [''import_device '' @ architecture @ ''.db -package '' @ package,
       ''open_project '' @ nm @ ''.al'',
       ''elaborate -top '' @ nm,
       ''read_adc top.adc'',
       ''optimize_rtl'',
       ''read_sdc top.sdc'',
       ''optimize_gate'',
       ''legalize_phy_inst'',
       ''place'',
       ''route'',
       ''bitgen -bit \"'' @ nm @ ''.bit\" -version 0X00 -g ucode:000000000000000000000000'']"

definition parse_device :: "string \<Rightarrow> error + string \<times> string \<times> string" where
  "parse_device dev =
     (case map_of [(''EG4S20BG256'', (''eagle_s20'', ''EG4'', ''BG256''))] dev of
        None \<Rightarrow> Inl (ValueError_device dev)
      | Some (architecture, fam, package) \<Rightarrow> Inr (architecture, fam, package))"

text \<open>
  \<open>_build_tcl\<close> of osfpga.py. \<open>upper\<close> is Python's \<open>str.upper\<close>, a parameter of the
  model like the other functions these files do not define.
\<close>

definition osfpga_build_tcl ::
  "(string \<Rightarrow> string) \<Rightarrow> string \<Rightarrow> string \<Rightarrow> source list \<Rightarrow> string \<Rightarrow> string list \<Rightarrow> string" where
  "osfpga_build_tcl upper nm dev fs build_name include_paths =
     join ''\<newline>''
      ([''create_design '' @ build_name,
        ''target_device '' @ upper dev,
        ''add_include_path ./''] @
       map (\<lambda>include_path. ''add_include_path '' @ include_path) include_paths @
       map (\<lambda>(f, typ, lib). ''add_design_file '' @ f) fs @
       [''set_top_module '' @ build_name] @
       [''add_constraint_file '' @ build_name @ ''.sdc'',
        ''synth'',
        ''packing'',
        ''place'',
        ''route'',
        ''sta'',
        ''power'',
        ''bitstream''])"

text \<open>
  \<open>_build_makefile\<close> of symbiflow.py. \<open>{"ql-eos-s3": "PU64"}.get(device)\<close> is \<open>None\<close>
  for any other device, which \<open>format\<close> prints as \<open>None\<close>.
\<close>

definition symbiflow_part :: "string \<Rightarrow> string" where
  "symbiflow_part dev = (if dev = ''ql-eos-s3'' then ''PU64'' else ''None'')"

definition symbiflow_build_makefile :: "string \<Rightarrow> string \<Rightarrow> string" where
  "symbiflow_build_makefile dev build_name =
     join ''\<newline>''
      [''mkfile_path := $(abspath $(lastword $(MAKEFILE_LIST)))'',
       ''current_dir := $(patsubst %/,%,$(dir $(mkfile_path)))'',
       ''TOP_F='' @ build_name,
       ''all: '' @ build_name @ ''_bit.h '' @ build_name @ ''.bin build/'' @ build_name @ ''.bit'',
       ''build/'' @ build_name @ ''.bit:'',
       CHR 0x09 # ''ql_symbiflow -compile -d '' @ dev @ '' -P '' @ symbiflow_part dev @
         '' -v '' @ build_name @ ''.v'' @ '' -t '' @ build_name @ '' -p '' @ build_name @ ''.pcf'',
       build_name @ ''_bit.h: build/'' @ build_name @ ''.bit'',
       CHR 0x09 # ''(cd build; TOP_F=$(TOP_F) symbiflow_write_bitheader)'',
       build_name @ ''.bin: build/'' @ build_name @ ''.bit'',
       CHR 0x09 # ''(cd build; TOP_F=$(TOP_F) symbiflow_write_binary)'']"

text \<open>
  \<open>_build_tcl\<close> of libero_soc.py. \<open>platform.device.split("-")\<close> must give exactly
  three parts, or the unpacking raises \<open>ValueError\<close>; \<open>listing\<close> is what
  \<open>os.listdir(build_dir)\<close> returns.
\<close>

fun split_on :: "char \<Rightarrow> string \<Rightarrow> string list" where
  "split_on c [] = [[]]"
| "split_on c (x # xs) =
     (if x = c then [] # split_on c xs
      else (case split_on c xs of [] \<Rightarrow> [[x]] | w # ws \<Rightarrow> (x # w) # ws))"

definition unpack3 :: "string list \<Rightarrow> error + string \<times> string \<times> string" where
  "unpack3 xs = (case xs of [a, b, c] \<Rightarrow> Inr (a, b, c) | _ \<Rightarrow> Inl ValueError_unpack)"

definition microsemi_build_tcl ::
  "string \<Rightarrow> source list \<Rightarrow> string list \<Rightarrow> string \<Rightarrow> error + string" where
  "microsemi_build_tcl dev srcs listing build_name =
     (case unpack3 (split_on CHR ''-'' dev) of
        Inl e \<Rightarrow> Inl e
      | Inr (die, package, speed) \<Rightarrow>
          Inr (join ''\<newline>''
            ([join '' ''
               [''new_project'',
                ''-location {./impl}'',
                ''-name '' @ tcl_name build_name,
                ''-project_description {}'',
                ''-block_mode 0'',
                ''-standalone_peripheral_initialization 0'',
                ''-instantiate_in_smartdesign 1'',
                ''-ondemand_build_dh 0'',
                ''-use_enhanced_constraint_flow 1'',
                ''-hdl {VERILOG}'',
                ''-family {PolarFire}'',
                ''-die {}'',
                ''-package {}'',
                ''-speed {}'',
                ''-die_voltage {}'',
                ''-part_range {}'',
                ''-adv_options {}''],
              join '' ''
               [''set_device'',
                ''-family {PolarFire}'',
                ''-die '' @ tcl_name die,
                ''-package '' @ tcl_name package,
                ''-speed '' @ tcl_name (''-'' @ speed),
                ''-die_voltage {1.0}'',
                ''-part_range {EXT}'',
                ''-adv_options {IO_DEFT_STD:LVCMOS 1.8V}'',
                ''-adv_options {RESTRICTPROBEPINS:1}'',
                ''-adv_options {RESTRICTSPIPINS:0}'',
                ''-adv_options {TEMPR:EXT}'',
                ''-adv_options {UNUSED_MSS_IO_RESISTOR_PULL:None}'',
                ''-adv_options {VCCI_1.2_VOLTR:EXT}'',
                ''-adv_options {VCCI_1.5_VOLTR:EXT}'',
                ''-adv_options {VCCI_1.8_VOLTR:EXT}'',
                ''-adv_options {VCCI_2.5_VOLTR:EXT}'',
                ''-adv_options {VCCI_3.3_VOLTR:EXT}'',
                ''-adv_options {VOLTR:EXT} '']] @
             map (\<lambda>(filename, language, library). ''import_files -hdl_source '' @ tcl_name filename) srcs @
             [''set_root -module '' @ tcl_name build_name] @
             map (\<lambda>file. ''file copy -- '' @ file @ '' impl/synthesis'')
               (filter (\<lambda>file. suffix ''.init'' file) listing) @
             [''import_files -io_pdc '' @ tcl_name (build_name @ ''_io.pdc''),
              ''import_files -fp_pdc '' @ tcl_name (build_name @ ''_fp.pdc''),
              ''import_files -convert_EDN_to_HDL 0 -sdc '' @ tcl_name (build_name @ ''.sdc''),
              join '' ''
               [''organize_tool_files'',
                ''-tool {SYNTHESIZE}'',
                ''-file impl/constraint/'' @ build_name @ ''.sdc'',
                ''-module '' @ build_name,
                ''-input_type {constraint}''],
              join '' ''
               [''organize_tool_files'',
                ''-tool {PLACEROUTE}'',
                ''-file impl/constraint/io/'' @ build_name @ ''_io.pdc'',
                ''-file impl/constraint/fp/'' @ build_name @ ''_fp.pdc'',
                ''-file impl/constraint/'' @ build_name @ ''.sdc'',
                ''-module '' @ build_name,
                ''-input_type {constraint}''],
              join '' ''
               [''organize_tool_files'',
                ''-tool {VERIFYTIMING}'',
                ''-file impl/constraint/'' @ build_name @ ''.sdc'',
                ''-module '' @ build_name,
                ''-input_type {constraint}'']] @
             [''run_tool -name {CONSTRAINT_MANAGEMENT}'',
              ''run_tool -name {SYNTHESIZE}'',
              ''run_tool -name {PLACEROUTE}'',
              ''run_tool -name {GENERATEPROGRAMMINGDATA}'',
              ''run_tool -name {GENERATEPROGRAMMINGFILE}''])))"

text \<open>\<open>_build_fp_pdc\<close> and \<open>_build_script\<close> of libero_soc.py: the text and the file name.\<close>

definition microsemi_build_fp_pdc :: "string list \<Rightarrow> string" where
  "microsemi_build_fp_pdc additional = join ''\<newline>'' additional"

definition is_windows :: "string \<Rightarrow> bool" where
  "is_windows platform \<longleftrightarrow> platform = ''win32'' \<or> platform = ''cygwin''"

definition microsemi_script_file :: "string \<Rightarrow> string \<Rightarrow> string" where
  "microsemi_script_file platform build_name =
     ''build_'' @ build_name @ (if is_windows platform then ''.bat'' else ''.sh'')"

definition microsemi_script_contents :: "string \<Rightarrow> string \<Rightarrow> string" where
  "microsemi_script_contents platform revision =
     (if is_windows platform
      then ''@echo off'' @ ''\<newline>'' @ ''REM Autogenerated by LiteX / git: '' @ revision @
           ''\<newline>'' @ ''\<newline>''
      else ''# Autogenerated by LiteX / git: '' @ revision @ ''\<newline>'')"

section \<open>The process, the platform and the build\<close>

text \<open>
  What a build changes: the working directory of the process, the files it writes (by
  path), the subprocesses it has started (their argument lists, in order), and the
  source list of the platform.
\<close>

record world =
  cwd :: string
  files :: "string \<Rightarrow> string option"
  spawned :: "string list list"
  sources :: "source list"

text \<open>
  What a build reads and these files do not define: the clock, the search path, the
  exit status a started program returns, the directory listing, the host platform, the
  revision of the tool, \<open>str.upper\<close>, the attributes of the platform object and the
  results of the calls into the platform and the design. A call that raises is
  \<open>Some e\<close> or \<open>Inl e\<close>.
\<close>

record v_output =
  ns :: namespace
  v_text :: string

record env =
  datetime_now :: string
  shutil_which :: "string \<Rightarrow> string option"
  subprocess_status :: "string list \<Rightarrow> int"
  os_listdir :: "string \<Rightarrow> error + string list"
  os_path_exists :: "string \<Rightarrow> bool"
  sys_platform :: string
  litex_git_revision :: string
  str_upper :: "string \<Rightarrow> string"
  platform_device :: string
  platform_devicename :: string
  platform_verilog_include_paths :: "string list"
  fragment_get_fragment :: "error option"
  platform_finalize :: "error option"
  platform_get_verilog :: "error + v_output"
  platform_resolve_signals :: "error + named_sc \<times> string list"

text \<open>
  A step of a build takes the world and returns an outcome and the world it leaves,
  also when it raises: an exception ends the build where it is raised, with everything
  done so far in place.
\<close>

type_synonym 'a io = "world \<Rightarrow> (error + 'a) \<times> world"

definition io_return :: "'a \<Rightarrow> 'a io" where
  "io_return x = (\<lambda>w. (Inr x, w))"

definition io_bind :: "'a io \<Rightarrow> ('a \<Rightarrow> 'b io) \<Rightarrow> 'b io" where
  "io_bind m f = (\<lambda>w. case m w of (Inl e, w') \<Rightarrow> (Inl e, w') | (Inr x, w') \<Rightarrow> f x w')"

definition io_lift :: "error + 'a \<Rightarrow> 'a io" where
  "io_lift r = (\<lambda>w. (r, w))"

definition io_check :: "error option \<Rightarrow> unit io" where
  "io_check r = (\<lambda>w. (case r of None \<Rightarrow> Inr () | Some e \<Rightarrow> Inl e, w))"

text \<open>
  \<open>os.getcwd\<close>, \<open>os.makedirs(d, exist_ok=True)\<close>, \<open>os.chdir\<close>, writing a file,
  \<open>subprocess.call\<close> and \<open>shutil.rmtree\<close>. Directories are not tracked, so creating and
  removing one leaves the world as it is; a relative path is taken from the working
  directory; starting a program records its arguments and returns its exit status.
  These calls are taken to succeed: the errors of a build are those the build code and
  the platform raise.
\<close>

definition os_path_join :: "string \<Rightarrow> string \<Rightarrow> string" where
  "os_path_join a b = (case b of [] \<Rightarrow> a @ ''/'' | c # _ \<Rightarrow> if c = CHR ''/'' then b else a @ ''/'' @ b)"

definition os_getcwd :: "string io" where
  "os_getcwd = (\<lambda>w. (Inr (cwd w), w))"

definition os_makedirs :: "string \<Rightarrow> unit io" where
  "os_makedirs d = io_return ()"

definition os_chdir :: "string \<Rightarrow> unit io" where
  "os_chdir d = (\<lambda>w. (Inr (), w\<lparr>cwd := os_path_join (cwd w) d\<rparr>))"

definition write_file :: "string \<Rightarrow> string \<Rightarrow> unit io" where
  "write_file f text = (\<lambda>w. (Inr (), w\<lparr>files := (files w)(os_path_join (cwd w) f \<mapsto> text)\<rparr>))"

definition subprocess_call :: "env \<Rightarrow> string list \<Rightarrow> int io" where
  "subprocess_call e args =
     (\<lambda>w. (Inr (subprocess_status e args), w\<lparr>spawned := spawned w @ [args]\<rparr>))"

definition shutil_rmtree :: "string \<Rightarrow> unit io" where
  "shutil_rmtree d = io_return ()"

definition get_sources :: "source list io" where
  "get_sources = (\<lambda>w. (Inr (sources w), w))"

text \<open>
  Modelled from the spec: \<open>platform.add_source\<close> of \<open>generic_platform\<close> is not in these
  files; the spec has the build "register it as an additional source file", with a
  language tag and a library tag. The file written is Verilog and goes to the end of
  the ordered list, once.
\<close>

definition add_source :: "string \<Rightarrow> unit io" where
  "add_source f = (\<lambda>w. (Inr (),
     if f \<in> fst ` set (sources w) then w
     else w\<lparr>sources := sources w @ [(f, ''verilog'', ''work'')]\<rparr>))"

text \<open>
  The steps every \<open>build\<close> starts with, after changing into the build directory:
  finalize the design, get the Verilog and the resolved signals, write \<open>build_name.v\<close>
  and add it to the sources.
\<close>

definition generate_verilog :: "env \<Rightarrow> string \<Rightarrow> (v_output \<times> named_sc \<times> string list) io" where
  "generate_verilog e build_name =
     io_bind (io_check (fragment_get_fragment e)) (\<lambda>_.
     io_bind (io_check (platform_finalize e)) (\<lambda>_.
     io_bind (io_lift (platform_get_verilog e)) (\<lambda>v.
     io_bind (io_lift (platform_resolve_signals e)) (\<lambda>(named_sc, named_pc).
     io_bind (write_file (build_name @ ''.v'') (v_text v)) (\<lambda>_.
     io_bind (add_source (build_name @ ''.v'')) (\<lambda>_.
     io_return (v, named_sc, named_pc)))))))"

subsection \<open>TangDinastyToolchain.build\<close>

definition anlogic_emit :: "externals \<Rightarrow> env \<Rightarrow> toolchain \<Rightarrow> string \<Rightarrow> namespace io" where
  "anlogic_emit ext e self build_name =
     io_bind (generate_verilog e build_name) (\<lambda>(v, named_sc, named_pc).
     io_bind (io_lift (anlogic_build_adc named_sc named_pc)) (\<lambda>adc.
     io_bind (write_file ''top.adc'' adc) (\<lambda>_.
     io_bind (write_file ''top.sdc'' (anlogic_build_sdc ext (clocks self) (ns v))) (\<lambda>_.
     io_bind (io_lift (parse_device (platform_device e))) (\<lambda>(architecture, fam, package).
     io_bind get_sources (\<lambda>srcs.
     io_bind (write_file (build_name @ ''.al'')
                (anlogic_build_al (datetime_now e) build_name fam (platform_device e) srcs)) (\<lambda>_.
     io_bind (write_file ''run.tcl'' (anlogic_build_tcl build_name architecture package)) (\<lambda>_.
     io_return (ns v)))))))))"

definition anlogic_not_found :: string where
  "anlogic_not_found =
     ''Unable to find Tang Dinasty toolchain, please:'' @ ''\<newline>'' @
     ''- Add  Tang Dinasty toolchain to your $PATH.''"

definition anlogic_failed :: string where
  "anlogic_failed = ''Error occured during Tang Dinasty's script execution.''"

definition anlogic_run :: "env \<Rightarrow> unit io" where
  "anlogic_run e =
     (if shutil_which e ''td'' = None then io_lift (Inl (OSError anlogic_not_found))
      else io_bind (subprocess_call e [''td'', ''run.tcl'']) (\<lambda>status.
           if status \<noteq> 0 then io_lift (Inl (OSError anlogic_failed)) else io_return ()))"

definition anlogic_build ::
  "externals \<Rightarrow> env \<Rightarrow> toolchain \<Rightarrow> string \<Rightarrow> string \<Rightarrow> bool \<Rightarrow> namespace io" where
  "anlogic_build ext e self build_dir build_name run =
     io_bind os_getcwd (\<lambda>cwd0.
     io_bind (os_makedirs build_dir) (\<lambda>_.
     io_bind (os_chdir build_dir) (\<lambda>_.
     io_bind (anlogic_emit ext e self build_name) (\<lambda>vns.
     io_bind (if run then anlogic_run e else io_return ()) (\<lambda>_.
     io_bind (os_chdir cwd0) (\<lambda>_.
     io_return vns))))))"

subsection \<open>OSFPGAToolchain.build\<close>

definition osfpga_emit :: "externals \<Rightarrow> env \<Rightarrow> toolchain \<Rightarrow> string \<Rightarrow> namespace io" where
  "osfpga_emit ext e self build_name =
     io_bind (generate_verilog e build_name) (\<lambda>(v, named_sc, named_pc).
     io_bind (write_file (build_name @ ''.sdc'') (osfpga_build_sdc ext (clocks self) (ns v))) (\<lambda>_.
     io_bind get_sources (\<lambda>srcs.
     io_bind (write_file ''build.tcl''
                (osfpga_build_tcl (str_upper e) (platform_devicename e) (platform_device e) srcs
                   build_name (platform_verilog_include_paths e))) (\<lambda>_.
     io_return (ns v)))))"

definition osfpga_not_found :: "env \<Rightarrow> string \<Rightarrow> string" where
  "osfpga_not_found e sh =
     ''Unable to find '' @ str_upper e sh @ '' toolchain, please:'' @ ''\<newline>'' @
     ''- Add '' @ str_upper e sh @ '' toolchain to your $PATH.''"

definition osfpga_failed :: "env \<Rightarrow> string \<Rightarrow> string" where
  "osfpga_failed e sh =
     ''Error occured during '' @ str_upper e sh @ (CHR 0x27 # ''s script execution.'')"

definition osfpga_run :: "env \<Rightarrow> toolchain \<Rightarrow> unit io" where
  "osfpga_run e self =
     (if shutil_which e (toolchain_sh self) = None
      then io_lift (Inl (OSError (osfpga_not_found e (toolchain_sh self))))
      else io_bind (subprocess_call e [toolchain_sh self, ''--batch'', ''--script'', ''build.tcl''])
             (\<lambda>status.
               if status \<noteq> 0 then io_lift (Inl (OSError (osfpga_failed e (toolchain_sh self))))
               else io_return ()))"

definition osfpga_build ::
  "externals \<Rightarrow> env \<Rightarrow> toolchain \<Rightarrow> string \<Rightarrow> string \<Rightarrow> bool \<Rightarrow> namespace io" where
  "osfpga_build ext e self build_dir build_name run =
     io_bind os_getcwd (\<lambda>cwd0.
     io_bind (os_makedirs build_dir) (\<lambda>_.
     io_bind (os_chdir build_dir) (\<lambda>_.
     io_bind (osfpga_emit ext e self build_name) (\<lambda>vns.
     io_bind (if run then osfpga_run e self else io_return ()) (\<lambda>_.
     io_bind (os_chdir cwd0) (\<lambda>_.
     io_return vns))))))"

subsection \<open>SymbiflowToolchain.build\<close>

definition symbiflow_emit :: "externals \<Rightarrow> env \<Rightarrow> toolchain \<Rightarrow> string \<Rightarrow> namespace io" where
  "symbiflow_emit ext e self build_name =
     io_bind (generate_verilog e build_name) (\<lambda>(v, named_sc, named_pc).
     io_bind (io_lift (symbiflow_build_io_pcf ext named_sc named_pc)) (\<lambda>pcf.
     io_bind (write_file (build_name @ ''.pcf'') pcf) (\<lambda>_.
     io_bind (write_file ''Makefile'' (symbiflow_build_makefile (platform_device e) build_name)) (\<lambda>_.
     io_return (ns v)))))"

definition symbiflow_not_found :: string where
  "symbiflow_not_found =
     ''Unable to find QuickLogic Symbiflow toolchain, please:'' @ ''\<newline>'' @
     ''- Add QuickLogic Symbiflow toolchain to your $PATH.''"

definition symbiflow_failed :: string where
  "symbiflow_failed = ''Error occured during QuickLogic Symbiflow's script execution.''"

definition symbiflow_run_make :: "env \<Rightarrow> unit io" where
  "symbiflow_run_make e =
     (if shutil_which e ''ql_symbiflow'' = None then io_lift (Inl (OSError symbiflow_not_found))
      else io_bind (subprocess_call e [''make'', ''-j1'']) (\<lambda>status.
           if status \<noteq> 0 then io_lift (Inl (OSError symbiflow_failed)) else io_return ()))"

definition symbiflow_build ::
  "externals \<Rightarrow> env \<Rightarrow> toolchain \<Rightarrow> string \<Rightarrow> string \<Rightarrow> bool \<Rightarrow> namespace io" where
  "symbiflow_build ext e self build_dir build_name run =
     io_bind (os_makedirs build_dir) (\<lambda>_.
     io_bind os_getcwd (\<lambda>cwd0.
     io_bind (os_chdir build_dir) (\<lambda>_.
     io_bind (symbiflow_emit ext e self build_name) (\<lambda>vns.
     io_bind (if run then symbiflow_run_make e else io_return ()) (\<lambda>_.
     io_bind (os_chdir cwd0) (\<lambda>_.
     io_return vns))))))"

subsection \<open>MicrosemiLiberoSoCPolarfireToolchain.build\<close>

text \<open>
  \<open>_build_tcl\<close> splits the device before it lists the build directory, so a device
  that does not split into three parts raises before \<open>os.listdir\<close> is called.
\<close>

definition microsemi_listing :: "env \<Rightarrow> string \<Rightarrow> error + string list" where
  "microsemi_listing e build_dir =
     (case unpack3 (split_on CHR ''-'' (platform_device e)) of
        Inl err \<Rightarrow> Inl err
      | Inr _ \<Rightarrow> os_listdir e build_dir)"

definition microsemi_emit ::
  "externals \<Rightarrow> env \<Rightarrow> toolchain \<Rightarrow> string \<Rightarrow> string \<Rightarrow> (namespace \<times> string) io" where
  "microsemi_emit ext e self build_dir build_name =
     io_bind (generate_verilog e build_name) (\<lambda>(v, named_sc, named_pc).
     io_bind get_sources (\<lambda>srcs.
     io_bind (io_lift (microsemi_listing e build_dir)) (\<lambda>listing.
     io_bind (io_lift (microsemi_build_tcl (platform_device e) srcs listing build_name)) (\<lambda>tcl.
     io_bind (write_file (build_name @ ''.tcl'') tcl) (\<lambda>_.
     io_bind (io_lift (microsemi_build_io_pdc ext named_sc named_pc
                         (additional_io_constraints self))) (\<lambda>pdc.
     io_bind (write_file (build_name @ ''_io.pdc'') pdc) (\<lambda>_.
     io_bind (write_file (build_name @ ''_fp.pdc'')
                (microsemi_build_fp_pdc (additional_fp_constraints self))) (\<lambda>_.
     io_bind (write_file (build_name @ ''.sdc'')
                (microsemi_build_timing_sdc ext (ns v) (clocks self) (false_paths self)
                   (additional_timing_constraints self))) (\<lambda>_.
     io_bind (write_file (microsemi_script_file (sys_platform e) build_name)
                (microsemi_script_contents (sys_platform e) (litex_git_revision e))) (\<lambda>_.
     io_return (ns v, microsemi_script_file (sys_platform e) build_name)))))))))))"

definition microsemi_failed :: string where
  "microsemi_failed = ''Subprocess failed''"

definition microsemi_command :: "env \<Rightarrow> string \<Rightarrow> string list" where
  "microsemi_command e script =
     (if is_windows (sys_platform e) then [''cmd'', ''/c''] else [''bash'']) @ [script]"

definition microsemi_run_script :: "env \<Rightarrow> string \<Rightarrow> unit io" where
  "microsemi_run_script e script =
     io_bind (subprocess_call e (microsemi_command e script))
       (\<lambda>status. if status \<noteq> 0 then io_lift (Inl (OSError microsemi_failed)) else io_return ())"

definition microsemi_run :: "env \<Rightarrow> string \<Rightarrow> unit io" where
  "microsemi_run e script =
     io_bind (if os_path_exists e ''impl'' then shutil_rmtree ''impl'' else io_return ()) (\<lambda>_.
     microsemi_run_script e script)"

definition microsemi_build ::
  "externals \<Rightarrow> env \<Rightarrow> toolchain \<Rightarrow> string \<Rightarrow> string \<Rightarrow> bool \<Rightarrow> namespace io" where
  "microsemi_build ext e self build_dir build_name run =
     io_bind (os_makedirs build_dir) (\<lambda>_.
     io_bind os_getcwd (\<lambda>cwd0.
     io_bind (os_chdir build_dir) (\<lambda>_.
     io_bind (microsemi_emit ext e self build_dir build_name) (\<lambda>(vns, script).
     io_bind (if run then microsemi_run e script else io_return ()) (\<lambda>_.
     io_bind (os_chdir cwd0) (\<lambda>_.
     io_return vns))))))"

section \<open>The Efinix PLL\<close>

text \<open>
  \<open>EFINIXPLL\<close> and its subclasses \<open>TRIONPLL\<close> and \<open>TITANIUMPLL\<close> (efinix.py) differ in
  the class attribute \<open>nclkouts_max\<close>. An instance keeps its name \<open>pll<n>\<close> and its
  counter \<open>nclkouts\<close>; \<open>clk_out\<close> is the list of its block in the interface writer,
  \<open>additional_sdc_commands\<close> and \<open>excluded_ios\<close> are the lists of the platform's
  toolchain that \<open>create_clkout\<close> appends to.
\<close>

datatype pll_class = EFINIXPLL | TRIONPLL | TITANIUMPLL

fun nclkouts_max :: "pll_class \<Rightarrow> nat" where
  "nclkouts_max EFINIXPLL = 3"
| "nclkouts_max TRIONPLL = 3"
| "nclkouts_max TITANIUMPLL = 5"

record pll =
  pll_class :: pll_class
  pll_name :: string
  nclkouts :: nat
  clk_out :: "(string \<times> rat \<times> rat \<times> rat) list"
  additional_sdc_commands :: "string list"
  excluded_ios :: "string list"

definition init_pll :: "pll_class \<Rightarrow> nat \<Rightarrow> pll" where
  "init_pll c n =
     \<lparr>pll_class = c, pll_name = ''pll'' @ str_nat n, nclkouts = 0, clk_out = [],
      additional_sdc_commands = [], excluded_ios = []\<rparr>"

text \<open>
  \<open>create_clkout(cd, freq, phase, margin, name, with_reset)\<close>. The assertion comes
  first. \<open>1e9/freq\<close> raises \<open>ZeroDivisionError\<close> for a zero frequency. With a clock
  domain, \<open>platform.add_extension\<close> and \<open>platform.request\<close> are called; \<open>request nm\<close> is
  the message of the exception they raise for the name \<open>nm\<close>, if any. The counter is
  incremented after these, and the output is appended to the block last.
\<close>

type_synonym clkout_args = "string option \<times> rat \<times> rat \<times> rat \<times> string \<times> bool"

definition create_clkout ::
  "externals \<Rightarrow> (string \<Rightarrow> string option) \<Rightarrow> pll \<Rightarrow> clkout_args \<Rightarrow> (error + unit) \<times> pll" where
  "create_clkout ext request self = (\<lambda>(cd, freq, phase, margin, nm, with_reset).
     if \<not> nclkouts self < nclkouts_max (pll_class self) then (Inl AssertionError, self)
     else
       let clk_out_name =
             (if nm = [] then pll_name self @ ''_clkout'' @ str_nat (nclkouts self) else nm)
       in if freq = 0 then (Inl ZeroDivisionError, self)
          else
            let self1 = self\<lparr>additional_sdc_commands := additional_sdc_commands self @
                  [''create_clock -period '' @ str_float ext (1000000000 / freq) @ '' '' @
                   clk_out_name]\<rparr>
            in case (if cd \<noteq> None then request clk_out_name else None) of
                 Some msg \<Rightarrow> (Inl (External msg), self1)
               | None \<Rightarrow>
                   let self2 = (if cd \<noteq> None
                                then self1\<lparr>excluded_ios := excluded_ios self1 @ [clk_out_name]\<rparr>
                                else self1)
                   in (Inr (), self2\<lparr>nclkouts := nclkouts self2 + 1,
                                      clk_out := clk_out self2 @
                                        [(clk_out_name, freq, phase, margin)]\<rparr>))"

text \<open>
  A sequence of \<open>create_clkout\<close> calls on one instance, a call that raised being caught
  by the caller: the outcomes in order, and the instance afterwards.
\<close>

fun create_clkouts ::
  "externals \<Rightarrow> (string \<Rightarrow> string option) \<Rightarrow> pll \<Rightarrow> clkout_args list \<Rightarrow>
   (error + unit) list \<times> pll" where
  "create_clkouts ext request self [] = ([], self)"
| "create_clkouts ext request self (a # as) =
     (case create_clkout ext request self a of
        (r, self1) \<Rightarrow>
          (case create_clkouts ext request self1 as of (rs, self2) \<Rightarrow> (r # rs, self2)))"

definition returned :: "(error + unit) list \<Rightarrow> nat" where
  "returned rs = length (filter (\<lambda>r. r = Inr ()) rs)"

section \<open>Example inputs\<close>

text \<open>
  Concrete values for the parameters of the model, used where a property is evaluated
  on an input: a float is printed by its integer part, a signal object by \<open>sig\<close> and
  its \<open>duid\<close>, a pin string is a single identifier, the namespace names a clock \<open>clk\<close>
  and its \<open>duid\<close>.
\<close>

definition ex_ext :: externals where
  "ex_ext = \<lparr>str_float = (\<lambda>p. str_nat (nat \<lfloor>p\<rfloor>)),
             str_signal = (\<lambda>s. ''sig'' @ str_nat (duid s)),
             pins_identifiers = (\<lambda>p. [p])\<rparr>"

definition ex_vns :: namespace where
  "ex_vns = (\<lambda>s. ''clk'' @ str_nat (duid s))"

section \<open>What a step leaves unchanged\<close>

text \<open>
  \<open>keeps g m\<close>: the step \<open>m\<close> leaves the part \<open>g\<close> of the world as it found it, whether
  it returns or raises. \<open>isabs\<close> is \<open>os.path.isabs\<close>; \<open>os.getcwd\<close> returns such a path.
\<close>

definition keeps :: "(world \<Rightarrow> 'b) \<Rightarrow> 'a io \<Rightarrow> bool" where
  "keeps g m \<longleftrightarrow> (\<forall>w. g (snd (m w)) = g w)"

definition isabs :: "string \<Rightarrow> bool" where
  "isabs p = (case p of [] \<Rightarrow> False | c # _ \<Rightarrow> c = CHR ''/'')"

text \<open>
  The four \<open>build\<close> methods have one shape: change into the build directory, run the
  emitting steps, run the tool if asked to, change back. \<open>build_shape\<close> writes this
  shape out on the world; each build is shown equal to it below.
\<close>

definition build_shape :: "string \<Rightarrow> 'a io \<Rightarrow> ('a \<Rightarrow> unit io) \<Rightarrow> ('a \<Rightarrow> 'b) \<Rightarrow> 'b io" where
  "build_shape d emit runstep g = (\<lambda>w.
     case emit (w\<lparr>cwd := os_path_join (cwd w) d\<rparr>) of
       (Inl err, w2) \<Rightarrow> (Inl err, w2)
     | (Inr x, w2) \<Rightarrow>
         (case runstep x w2 of
            (Inl err, w3) \<Rightarrow> (Inl err, w3)
          | (Inr _, w3) \<Rightarrow> (Inr (g x), w3\<lparr>cwd := os_path_join (cwd w3) (cwd w)\<rparr>)))"

section \<open>Example surroundings\<close>

text \<open>
  A process in \<open>/home/user\<close> that has written and started nothing; a platform whose
  calls succeed, with one clock pin; a search path on which nothing is found, and one
  on which only \<open>bash\<close> is. \<open>ascii_upper\<close> stands for \<open>str.upper\<close> on ASCII text.
\<close>

definition ascii_upper :: "string \<Rightarrow> string" where
  "ascii_upper = map (\<lambda>c.
     case map_of (zip ''abcdefghijklmnopqrstuvwxyz'' ''ABCDEFGHIJKLMNOPQRSTUVWXYZ'') c of
       None \<Rightarrow> c | Some u \<Rightarrow> u)"

definition ex_world :: world where
  "ex_world = \<lparr>cwd = ''/home/user'', files = (\<lambda>_. None), spawned = [], sources = []\<rparr>"

definition ex_env :: env where
  "ex_env =
     \<lparr>datetime_now = ''2024-01-01 00:00:00'',
      shutil_which = (\<lambda>_. None),
      subprocess_status = (\<lambda>_. 0),
      os_listdir = (\<lambda>_. Inr []),
      os_path_exists = (\<lambda>_. False),
      sys_platform = ''linux'',
      litex_git_revision = ''--------'',
      str_upper = ascii_upper,
      platform_device = ''EG4S20BG256'',
      platform_devicename = ''device'',
      platform_verilog_include_paths = [],
      fragment_get_fragment = None,
      platform_finalize = None,
      platform_get_verilog = Inr \<lparr>ns = ex_vns, v_text = ''module top(); endmodule''\<rparr>,
      platform_resolve_signals = Inr ([(''led'', [''A1''], [IOStandard ''LVCMOS33''], ''user_led'')], [])\<rparr>"


text \<open>A clock output of 100 MHz for the domain \<open>sys\<close>, with the default name.\<close>

definition ex_clkout :: clkout_args where
  "ex_clkout = (Some ''sys'', 100000000, 0, 0, [], True)"

section \<open>Properties of the constraint bookkeeping\<close>

subsection \<open>Period constraints\<close>

text \<open>
  In anlogic.py and osfpga.py a second period for the same clock is accepted when it
  rounds to the value recorded by the first, and the recorded value stays the first
  rounded value.
\<close>

lemma anlogic_same_rounded_accepted:
  assumes "round_ps p1 = round_ps p2"
    and "fst (anlogic_add_period_constraint self clk p1) = Inr ()"
  shows "fst (anlogic_add_period_constraint (snd (anlogic_add_period_constraint self clk p1)) clk p2)
           = Inr () \<and>
         map_of (clocks (snd (anlogic_add_period_constraint
                   (snd (anlogic_add_period_constraint self clk p1)) clk p2))) clk
           = Some (round_ps p1)"
  using assms
  by (auto simp: anlogic_add_period_constraint_def Let_def update_conv' split: if_splits)

lemma osfpga_same_rounded_accepted:
  assumes "round_ps p1 = round_ps p2"
    and "fst (osfpga_add_period_constraint self clk p1) = Inr ()"
  shows "fst (osfpga_add_period_constraint (snd (osfpga_add_period_constraint self clk p1)) clk p2)
           = Inr () \<and>
         map_of (clocks (snd (osfpga_add_period_constraint
                   (snd (osfpga_add_period_constraint self clk p1)) clk p2))) clk
           = Some (round_ps p1)"
  using assms
  by (auto simp: osfpga_add_period_constraint_def Let_def update_conv' split: if_splits)

text \<open>
  Claim C1. For every toolchain, two periods for one clock that agree after rounding
  down to 0.001 ns are both accepted, and the recorded period is the first rounded
  value. The Microsemi toolchain does not round: on a fresh toolchain it accepts
  100.0001 ns for a clock, records 100.0001 and not 100.0, and then rejects 100.0002 ns
  for the same clock, although both periods round to the same value.
\<close>

theorem microsemi_same_rounded_rejected:
  "round_ps 100.0001 = round_ps 100.0002 \<and>
   microsemi_add_period_constraint (init_toolchain []) (Signal 0) 100.0001 =
     (Inr (), (init_toolchain [])\<lparr>clocks := [(Signal 0, 100.0001)]\<rparr>) \<and>
   microsemi_add_period_constraint ((init_toolchain [])\<lparr>clocks := [(Signal 0, 100.0001)]\<rparr>)
       (Signal 0) 100.0002 =
     (Inl (ValueError_constrained 100.0001 100.0002),
      (init_toolchain [])\<lparr>clocks := [(Signal 0, 100.0001)]\<rparr>)"
proof -
  have r: "round_ps 100.0001 = round_ps 100.0002"
    by code_simp
  have c1: "microsemi_add_period_constraint (init_toolchain []) (Signal 0) 100.0001 =
     (Inr (), (init_toolchain [])\<lparr>clocks := [(Signal 0, 100.0001)]\<rparr>)"
    by (simp add: microsemi_add_period_constraint_def init_toolchain_def)
  have c2: "microsemi_add_period_constraint
       ((init_toolchain [])\<lparr>clocks := [(Signal 0, 100.0001)]\<rparr>) (Signal 0) 100.0002 =
     (Inl (ValueError_constrained 100.0001 100.0002),
      (init_toolchain [])\<lparr>clocks := [(Signal 0, 100.0001)]\<rparr>)"
    by (simp add: microsemi_add_period_constraint_def init_toolchain_def)
  from r c1 c2 show ?thesis by (intro conjI)
qed

text \<open>
  In anlogic.py and osfpga.py a period whose rounded value differs from the recorded
  one raises the error with both values and leaves the recorded periods as they are.
  In libero_soc.py the same holds for a period that differs from the recorded one as
  given.
\<close>

lemma anlogic_conflict:
  assumes "map_of (clocks self) clk = Some r" and "round_ps p \<noteq> r"
  shows "fst (anlogic_add_period_constraint self clk p) =
           Inl (ValueError_constrained r (round_ps p)) \<and>
         clocks (snd (anlogic_add_period_constraint self clk p)) = clocks self"
  using assms by (simp add: anlogic_add_period_constraint_def Let_def)

lemma osfpga_conflict:
  assumes "map_of (clocks self) clk = Some r" and "round_ps p \<noteq> r"
  shows "fst (osfpga_add_period_constraint self clk p) =
           Inl (ValueError_constrained r (round_ps p)) \<and>
         clocks (snd (osfpga_add_period_constraint self clk p)) = clocks self"
  using assms by (simp add: osfpga_add_period_constraint_def Let_def)

lemma microsemi_conflict:
  assumes "map_of (clocks self) clk = Some r" and "p \<noteq> r"
  shows "microsemi_add_period_constraint self clk p = (Inl (ValueError_constrained r p), self)"
  using assms by (simp add: microsemi_add_period_constraint_def)


subsection \<open>False paths\<close>

lemma set_set_add: "set (set_add x xs) = insert x (set xs)"
  by (auto simp: set_add_def)

lemma distinct_set_add: "distinct xs \<Longrightarrow> distinct (set_add x xs)"
  by (simp add: set_add_def)

lemma false_paths_add_list:
  "false_paths (snd (add_false_path_constraint self a b)) =
     (if (b, a) \<in> set (false_paths self) then false_paths self
      else set_add (a, b) (false_paths self))"
  by (simp add: add_false_path_constraint_def)

lemma false_paths_add:
  "set (false_paths (snd (add_false_path_constraint self a b))) =
     (if (b, a) \<in> set (false_paths self) then set (false_paths self)
      else insert (a, b) (set (false_paths self)))"
  by (simp add: false_paths_add_list set_set_add)

lemma fp_inv_add:
  assumes "fp_inv self"
  shows "fp_inv (snd (add_false_path_constraint self a b))"
proof -
  let ?s = "snd (add_false_path_constraint self a b)"
  from assms have d: "distinct (false_paths self)"
    and sym: "\<And>x y. (x, y) \<in> set (false_paths self) \<Longrightarrow>
                (y, x) \<in> set (false_paths self) \<Longrightarrow> x = y"
    by (simp_all add: fp_inv_def)
  have d': "distinct (false_paths ?s)"
    using d by (simp add: false_paths_add_list distinct_set_add)
  have sym': "x = y"
    if "(x, y) \<in> set (false_paths ?s)" and "(y, x) \<in> set (false_paths ?s)" for x y
    using that sym [of x y] by (auto simp: false_paths_add split: if_splits)
  from d' sym' show ?thesis unfolding fp_inv_def by blast
qed

lemma fp_inv_init: "fp_inv (init_toolchain sh)"
  by (simp add: fp_inv_def init_toolchain_def)

lemma fp_inv_add_false_paths: "fp_inv self \<Longrightarrow> fp_inv (add_false_paths self cs)"
  by (induction self cs rule: add_false_paths.induct) (simp_all add: fp_inv_add)

lemma joined_add:
  "((a, b) \<in> set (false_paths (snd (add_false_path_constraint self x y))) \<or>
    (b, a) \<in> set (false_paths (snd (add_false_path_constraint self x y)))) \<longleftrightarrow>
   ((a, b) \<in> set (false_paths self) \<or> (b, a) \<in> set (false_paths self) \<or>
    (a, b) = (x, y) \<or> (b, a) = (x, y))"
  by (auto simp: false_paths_add)

lemma joined_add_false_paths:
  "((a, b) \<in> set (false_paths (add_false_paths self cs)) \<or>
    (b, a) \<in> set (false_paths (add_false_paths self cs))) \<longleftrightarrow>
   ((a, b) \<in> set (false_paths self) \<or> (b, a) \<in> set (false_paths self) \<or>
    (a, b) \<in> set cs \<or> (b, a) \<in> set cs)"
proof (induction self cs rule: add_false_paths.induct)
  case (1 self)
  then show ?case by simp
next
  case (2 self x y cs)
  let ?s = "snd (add_false_path_constraint self x y)"
  have "((a, b) \<in> set (false_paths (add_false_paths self ((x, y) # cs))) \<or>
         (b, a) \<in> set (false_paths (add_false_paths self ((x, y) # cs)))) \<longleftrightarrow>
        (((a, b) \<in> set (false_paths ?s) \<or> (b, a) \<in> set (false_paths ?s)) \<or>
         (a, b) \<in> set cs \<or> (b, a) \<in> set cs)"
    using "2.IH" by simp
  also have "\<dots> \<longleftrightarrow>
        (((a, b) \<in> set (false_paths self) \<or> (b, a) \<in> set (false_paths self) \<or>
          (a, b) = (x, y) \<or> (b, a) = (x, y)) \<or> (a, b) \<in> set cs \<or> (b, a) \<in> set cs)"
    by (simp only: joined_add)
  also have "\<dots> \<longleftrightarrow>
        ((a, b) \<in> set (false_paths self) \<or> (b, a) \<in> set (false_paths self) \<or>
         (a, b) \<in> set ((x, y) # cs) \<or> (b, a) \<in> set ((x, y) # cs))"
    by auto
  finally show ?case .
qed

lemma stored_pairs_inv:
  assumes "fp_inv self"
  shows "stored_pairs self a b =
     (if (a, b) \<in> set (false_paths self) \<or> (b, a) \<in> set (false_paths self) then 1 else 0)"
proof -
  let ?S = "{p. p = (a, b) \<or> p = (b, a)} \<inter> set (false_paths self)"
  from assms have d: "distinct (false_paths self)"
    and sym: "(a, b) \<in> set (false_paths self) \<Longrightarrow> (b, a) \<in> set (false_paths self) \<Longrightarrow> a = b"
    by (auto simp: fp_inv_def)
  have len: "stored_pairs self a b = card ?S"
    unfolding stored_pairs_def using d by (simp add: distinct_length_filter)
  show ?thesis
  proof (cases "(a, b) \<in> set (false_paths self)")
    case True
    then have "?S = {(a, b)}" using sym by auto
    with len True show ?thesis by simp
  next
    case False
    show ?thesis
    proof (cases "(b, a) \<in> set (false_paths self)")
      case True
      with False have "?S = {(b, a)}" by auto
      with len True show ?thesis by simp
    next
      case nb: False
      with False have "?S = {}" by auto
      with len False nb show ?thesis by simp
    qed
  qed
qed

text \<open>
  Claim C3. \<open>add_false_path_constraint\<close> never raises, and after any sequence of calls
  on a new toolchain, in any order and any number of times, the set holds exactly one
  pair for the clocks \<open>a\<close> and \<open>b\<close> if one of the calls was for \<open>(a, b)\<close> or \<open>(b, a)\<close>,
  and none otherwise.
\<close>

theorem false_path_one_stored_pair:
  "fst (add_false_path_constraint self a b) = Inr () \<and>
   stored_pairs (add_false_paths (init_toolchain sh) cs) a b =
     (if (a, b) \<in> set cs \<or> (b, a) \<in> set cs then 1 else 0)"
proof -
  have "fp_inv (add_false_paths (init_toolchain sh) cs)"
    by (rule fp_inv_add_false_paths [OF fp_inv_init])
  then show ?thesis
    by (simp add: stored_pairs_inv joined_add_false_paths add_false_path_constraint_def
        init_toolchain_def)
qed

section \<open>Properties of the timing-constraint emitters\<close>





text \<open>
  The dictionaries and sets the toolchains build have the shape the next theorem asks
  for: a clock is a key once, a pair is stored once.
\<close>

lemma anlogic_clocks_distinct:
  "distinct (map fst (clocks self)) \<Longrightarrow>
   distinct (map fst (clocks (snd (anlogic_add_period_constraint self clk p))))"
  by (simp add: anlogic_add_period_constraint_def Let_def distinct_update)

lemma osfpga_clocks_distinct:
  "distinct (map fst (clocks self)) \<Longrightarrow>
   distinct (map fst (clocks (snd (osfpga_add_period_constraint self clk p))))"
  by (simp add: osfpga_add_period_constraint_def Let_def distinct_update)

lemma microsemi_clocks_distinct:
  "distinct (map fst (clocks self)) \<Longrightarrow>
   distinct (map fst (clocks (snd (microsemi_add_period_constraint self clk p))))"
  by (simp add: microsemi_add_period_constraint_def distinct_update)

lemma false_paths_distinct: "distinct (false_paths (add_false_paths (init_toolchain sh) cs))"
  using fp_inv_add_false_paths [OF fp_inv_init, of sh cs] by (simp add: fp_inv_def)



section \<open>Properties of the IO-constraint emitters\<close>







text \<open>The Anlogic emitter writes the IO standard and leaves the pull resistor out.\<close>

lemma anlogic_entries_drop_misc:
  "anlogic_build_adc
     [(''sig'', [''A1'', ''A2'', ''A3''], [IOStandard ''LVCMOS33'', Misc ''PULLUP''], ''res'')] [] =
     Inr (''set_pin_assignment {sig[0]} { LOCATION = A1;  IOSTANDARD = LVCMOS33; }}'' @ ''\<newline>'' @
          ''set_pin_assignment {sig[1]} { LOCATION = A2;  IOSTANDARD = LVCMOS33; }}'' @ ''\<newline>'' @
          ''set_pin_assignment {sig[2]} { LOCATION = A3;  IOSTANDARD = LVCMOS33; }}'')"
  by code_simp



section \<open>Properties of the project files\<close>







section \<open>Properties of the builds\<close>

subsection \<open>What the steps leave unchanged\<close>

lemma keeps_return: "keeps g (io_return x)"
  by (simp add: keeps_def io_return_def)

lemma keeps_lift: "keeps g (io_lift r)"
  by (simp add: keeps_def io_lift_def)

lemma keeps_check: "keeps g (io_check r)"
  by (simp add: keeps_def io_check_def)

lemma keeps_get_sources: "keeps g get_sources"
  by (simp add: keeps_def get_sources_def)

lemma keeps_bind:
  assumes "keeps g m" and "\<And>x. keeps g (f x)"
  shows "keeps g (io_bind m f)"
proof -
  have "g (snd (io_bind m f w)) = g w" for w
  proof (cases "m w")
    case (Pair r w')
    with assms(1) have w': "g w' = g w"
      by (auto simp: keeps_def dest: spec [of _ w])
    show ?thesis
    proof (cases r)
      case (Inl e)
      with Pair w' show ?thesis by (simp add: io_bind_def)
    next
      case (Inr x)
      with Pair w' assms(2) [of x] show ?thesis by (simp add: io_bind_def keeps_def)
    qed
  qed
  then show ?thesis by (simp add: keeps_def)
qed

lemma keeps_case_prod: "(\<And>a b. keeps g (f a b)) \<Longrightarrow> keeps g (case p of (a, b) \<Rightarrow> f a b)"
  by (cases p) simp

lemma keeps_if: "keeps g a \<Longrightarrow> keeps g b \<Longrightarrow> keeps g (if c then a else b)"
  by simp

lemma keeps_cwd_write_file: "keeps cwd (write_file f t)"
  by (simp add: keeps_def write_file_def)

lemma keeps_spawned_write_file: "keeps spawned (write_file f t)"
  by (simp add: keeps_def write_file_def)

lemma keeps_cwd_add_source: "keeps cwd (add_source f)"
  by (simp add: keeps_def add_source_def)

lemma keeps_spawned_add_source: "keeps spawned (add_source f)"
  by (simp add: keeps_def add_source_def)

lemma keeps_cwd_subprocess_call: "keeps cwd (subprocess_call e args)"
  by (simp add: keeps_def subprocess_call_def)

lemma keeps_rmtree: "keeps g (shutil_rmtree d)"
  by (simp add: shutil_rmtree_def keeps_return)

lemmas keeps_intros =
  keeps_bind keeps_case_prod keeps_if keeps_return keeps_lift keeps_check keeps_get_sources
  keeps_rmtree

lemmas keeps_cwd_intros = keeps_intros keeps_cwd_write_file keeps_cwd_add_source
  keeps_cwd_subprocess_call

lemmas keeps_spawned_intros = keeps_intros keeps_spawned_write_file keeps_spawned_add_source

lemma keeps_cwd_generate_verilog: "keeps cwd (generate_verilog e bn)"
  unfolding generate_verilog_def by (intro keeps_cwd_intros)

lemma keeps_spawned_generate_verilog: "keeps spawned (generate_verilog e bn)"
  unfolding generate_verilog_def by (intro keeps_spawned_intros)

lemma keeps_cwd_anlogic_emit: "keeps cwd (anlogic_emit ext e self bn)"
  unfolding anlogic_emit_def by (intro keeps_cwd_intros keeps_cwd_generate_verilog)

lemma keeps_spawned_anlogic_emit: "keeps spawned (anlogic_emit ext e self bn)"
  unfolding anlogic_emit_def by (intro keeps_spawned_intros keeps_spawned_generate_verilog)

lemma keeps_cwd_osfpga_emit: "keeps cwd (osfpga_emit ext e self bn)"
  unfolding osfpga_emit_def by (intro keeps_cwd_intros keeps_cwd_generate_verilog)

lemma keeps_spawned_osfpga_emit: "keeps spawned (osfpga_emit ext e self bn)"
  unfolding osfpga_emit_def by (intro keeps_spawned_intros keeps_spawned_generate_verilog)

lemma keeps_cwd_symbiflow_emit: "keeps cwd (symbiflow_emit ext e self bn)"
  unfolding symbiflow_emit_def by (intro keeps_cwd_intros keeps_cwd_generate_verilog)

lemma keeps_spawned_symbiflow_emit: "keeps spawned (symbiflow_emit ext e self bn)"
  unfolding symbiflow_emit_def by (intro keeps_spawned_intros keeps_spawned_generate_verilog)

lemma keeps_cwd_microsemi_emit: "keeps cwd (microsemi_emit ext e self bd bn)"
  unfolding microsemi_emit_def by (intro keeps_cwd_intros keeps_cwd_generate_verilog)


lemma keeps_cwd_anlogic_run: "keeps cwd (anlogic_run e)"
  unfolding anlogic_run_def by (intro keeps_cwd_intros)

lemma keeps_cwd_osfpga_run: "keeps cwd (osfpga_run e self)"
  unfolding osfpga_run_def by (intro keeps_cwd_intros)

lemma keeps_cwd_symbiflow_run_make: "keeps cwd (symbiflow_run_make e)"
  unfolding symbiflow_run_make_def by (intro keeps_cwd_intros)

lemma keeps_cwd_microsemi_run: "keeps cwd (microsemi_run e script)"
  unfolding microsemi_run_def microsemi_run_script_def by (intro keeps_cwd_intros)

lemma anlogic_build_shape:
  "anlogic_build ext e self bd bn run =
     build_shape bd (anlogic_emit ext e self bn) (\<lambda>_. if run then anlogic_run e else io_return ())
       (\<lambda>x. x)"
  by (rule ext)
     (simp add: anlogic_build_def build_shape_def io_bind_def os_getcwd_def os_makedirs_def
        os_chdir_def io_return_def split: prod.splits sum.splits)


lemma osfpga_build_shape:
  "osfpga_build ext e self bd bn run =
     build_shape bd (osfpga_emit ext e self bn)
       (\<lambda>_. if run then osfpga_run e self else io_return ()) (\<lambda>x. x)"
  by (rule ext)
     (simp add: osfpga_build_def build_shape_def io_bind_def os_getcwd_def os_makedirs_def
        os_chdir_def io_return_def split: prod.splits sum.splits)

lemma symbiflow_build_shape:
  "symbiflow_build ext e self bd bn run =
     build_shape bd (symbiflow_emit ext e self bn)
       (\<lambda>_. if run then symbiflow_run_make e else io_return ()) (\<lambda>x. x)"
  by (rule ext)
     (simp add: symbiflow_build_def build_shape_def io_bind_def os_getcwd_def os_makedirs_def
        os_chdir_def io_return_def split: prod.splits sum.splits)

lemma microsemi_build_shape:
  "microsemi_build ext e self bd bn run =
     build_shape bd (microsemi_emit ext e self bd bn)
       (\<lambda>x. if run then microsemi_run e (snd x) else io_return ()) fst"
  by (rule ext)
     (simp add: microsemi_build_def build_shape_def io_bind_def os_getcwd_def os_makedirs_def
        os_chdir_def io_return_def split: prod.splits sum.splits)

lemma os_path_join_abs: "isabs b \<Longrightarrow> os_path_join a b = b"
  by (cases b) (simp_all add: isabs_def os_path_join_def)

lemma build_shape_cwd:
  assumes "keeps cwd emit" and "\<And>x. keeps cwd (runstep x)" and "isabs (cwd w)"
  shows "case fst (build_shape d emit runstep g w) of
           Inl _ \<Rightarrow> cwd (snd (build_shape d emit runstep g w)) = os_path_join (cwd w) d
         | Inr _ \<Rightarrow> cwd (snd (build_shape d emit runstep g w)) = cwd w"
proof -
  let ?w1 = "w\<lparr>cwd := os_path_join (cwd w) d\<rparr>"
  obtain r2 w2 where e: "emit ?w1 = (r2, w2)" by (cases "emit ?w1")
  with assms(1) have c2: "cwd w2 = os_path_join (cwd w) d"
    by (auto simp: keeps_def dest: spec [of _ ?w1])
  show ?thesis
  proof (cases r2)
    case (Inl err)
    with e c2 show ?thesis by (simp add: build_shape_def)
  next
    case (Inr x)
    obtain r3 w3 where r: "runstep x w2 = (r3, w3)" by (cases "runstep x w2")
    with assms(2) [of x] have c3: "cwd w3 = cwd w2"
      by (auto simp: keeps_def dest: spec [of _ w2])
    show ?thesis
    proof (cases r3)
      case (Inl err)
      with Inr e r c2 c3 show ?thesis by (simp add: build_shape_def)
    next
      case Inr3: (Inr u)
      with Inr e r show ?thesis
        by (simp add: build_shape_def os_path_join_abs [OF assms(3)])
    qed
  qed
qed

lemma build_shape_emit_fails:
  "fst (emit (w\<lparr>cwd := os_path_join (cwd w) d\<rparr>)) = Inl err \<Longrightarrow>
   build_shape d emit runstep g w = (Inl err, snd (emit (w\<lparr>cwd := os_path_join (cwd w) d\<rparr>)))"
  by (cases "emit (w\<lparr>cwd := os_path_join (cwd w) d\<rparr>)") (simp add: build_shape_def)

lemma build_shape_run:
  "fst (emit (w\<lparr>cwd := os_path_join (cwd w) d\<rparr>)) = Inr x \<Longrightarrow>
   fst (build_shape d emit runstep g w) =
     (case fst (runstep x (snd (emit (w\<lparr>cwd := os_path_join (cwd w) d\<rparr>)))) of
        Inl err \<Rightarrow> Inl err | Inr _ \<Rightarrow> Inr (g x)) \<and>
   spawned (snd (build_shape d emit runstep g w)) =
     spawned (snd (runstep x (snd (emit (w\<lparr>cwd := os_path_join (cwd w) d\<rparr>)))))"
  by (cases "emit (w\<lparr>cwd := os_path_join (cwd w) d\<rparr>)")
     (auto simp: build_shape_def split: prod.splits sum.splits)

lemma keeps_spawned_emit_at:
  "keeps spawned emit \<Longrightarrow> spawned (snd (emit (w\<lparr>cwd := c\<rparr>))) = spawned w"
  by (auto simp: keeps_def dest: spec [of _ "w\<lparr>cwd := c\<rparr>"])

text \<open>The run steps, on any world.\<close>

lemma anlogic_run_not_found:
  "shutil_which e ''td'' = None \<Longrightarrow> anlogic_run e w = (Inl (OSError anlogic_not_found), w)"
  by (simp add: anlogic_run_def io_lift_def)

lemma anlogic_run_found:
  "shutil_which e ''td'' = Some path \<Longrightarrow>
   anlogic_run e w =
     (if subprocess_status e [''td'', ''run.tcl''] \<noteq> 0 then Inl (OSError anlogic_failed)
      else Inr (),
      w\<lparr>spawned := spawned w @ [[''td'', ''run.tcl'']]\<rparr>)"
  by (simp add: anlogic_run_def io_lift_def io_bind_def subprocess_call_def io_return_def)

lemma osfpga_run_not_found:
  "shutil_which e (toolchain_sh self) = None \<Longrightarrow>
   osfpga_run e self w = (Inl (OSError (osfpga_not_found e (toolchain_sh self))), w)"
  by (simp add: osfpga_run_def io_lift_def)

lemma osfpga_run_found:
  "shutil_which e (toolchain_sh self) = Some path \<Longrightarrow>
   osfpga_run e self w =
     (if subprocess_status e [toolchain_sh self, ''--batch'', ''--script'', ''build.tcl''] \<noteq> 0
      then Inl (OSError (osfpga_failed e (toolchain_sh self))) else Inr (),
      w\<lparr>spawned := spawned w @ [[toolchain_sh self, ''--batch'', ''--script'', ''build.tcl'']]\<rparr>)"
  by (simp add: osfpga_run_def io_lift_def io_bind_def subprocess_call_def io_return_def)

lemma symbiflow_run_not_found:
  "shutil_which e ''ql_symbiflow'' = None \<Longrightarrow>
   symbiflow_run_make e w = (Inl (OSError symbiflow_not_found), w)"
  by (simp add: symbiflow_run_make_def io_lift_def)

lemma symbiflow_run_found:
  "shutil_which e ''ql_symbiflow'' = Some path \<Longrightarrow>
   symbiflow_run_make e w =
     (if subprocess_status e [''make'', ''-j1''] \<noteq> 0 then Inl (OSError symbiflow_failed)
      else Inr (),
      w\<lparr>spawned := spawned w @ [[''make'', ''-j1'']]\<rparr>)"
  by (simp add: symbiflow_run_make_def io_lift_def io_bind_def subprocess_call_def io_return_def)



text \<open>When the steps before the run succeed.\<close>

lemma generate_verilog_ok:
  assumes "fragment_get_fragment e = None" and "platform_finalize e = None"
    and "platform_get_verilog e = Inr v" and "platform_resolve_signals e = Inr (sc, pc)"
  shows "fst (generate_verilog e bn w) = Inr (v, sc, pc)"
  using assms
  by (simp add: generate_verilog_def io_bind_def io_check_def io_lift_def write_file_def
      add_source_def io_return_def)

lemma io_bind_ok: "fst (m w) = Inr x \<Longrightarrow> io_bind m f w = f x (snd (m w))"
  by (cases "m w") (simp add: io_bind_def)

lemma anlogic_emit_ok:
  assumes "fragment_get_fragment e = None" and "platform_finalize e = None"
    and "platform_get_verilog e = Inr v" and "platform_resolve_signals e = Inr (sc, pc)"
    and "anlogic_build_adc sc pc = Inr adc"
    and "parse_device (platform_device e) = Inr dev"
  shows "fst (anlogic_emit ext e self bn w) = Inr (ns v)"
  unfolding anlogic_emit_def io_bind_ok [OF generate_verilog_ok [OF assms(1-4)]]
  using assms(5,6)
  by (simp add: io_bind_def io_lift_def write_file_def get_sources_def io_return_def
      split: prod.splits)

lemma osfpga_emit_ok:
  assumes "fragment_get_fragment e = None" and "platform_finalize e = None"
    and "platform_get_verilog e = Inr v" and "platform_resolve_signals e = Inr (sc, pc)"
  shows "fst (osfpga_emit ext e self bn w) = Inr (ns v)"
  unfolding osfpga_emit_def io_bind_ok [OF generate_verilog_ok [OF assms(1-4)]]
  by (simp add: io_bind_def io_lift_def write_file_def get_sources_def io_return_def)

lemma symbiflow_emit_ok:
  assumes "fragment_get_fragment e = None" and "platform_finalize e = None"
    and "platform_get_verilog e = Inr v" and "platform_resolve_signals e = Inr (sc, pc)"
    and "symbiflow_build_io_pcf ext sc pc = Inr pcf"
  shows "fst (symbiflow_emit ext e self bn w) = Inr (ns v)"
  unfolding symbiflow_emit_def io_bind_ok [OF generate_verilog_ok [OF assms(1-4)]]
  using assms(5)
  by (simp add: io_bind_def io_lift_def write_file_def get_sources_def io_return_def)



subsection \<open>The steps before the run, in the example surroundings\<close>

lemma ex_anlogic_emit:
  "fst (anlogic_emit ex_ext ex_env self bn w) = Inr ex_vns"
proof -
  have adc: "anlogic_build_adc [(''led'', [''A1''], [IOStandard ''LVCMOS33''], ''user_led'')] [] =
    Inr ''set_pin_assignment {led} { LOCATION = A1;  IOSTANDARD = LVCMOS33; }}''"
    by code_simp
  have dev: "parse_device ''EG4S20BG256'' = Inr (''eagle_s20'', ''EG4'', ''BG256'')"
    by (simp add: parse_device_def)
  have "fst (anlogic_emit ex_ext ex_env self bn w) =
        Inr (ns \<lparr>ns = ex_vns, v_text = ''module top(); endmodule''\<rparr>)"
    by (rule anlogic_emit_ok [where sc = "[(''led'', [''A1''], [IOStandard ''LVCMOS33''], ''user_led'')]"
          and pc = "[]"])
       (simp_all add: ex_env_def adc dev)
  then show ?thesis by simp
qed


subsection \<open>The working directory\<close>

text \<open>
  Claim C4, as stated: on every exit path of \<open>build\<close>, also when a step raises, the
  working directory is the one that was current when \<open>build\<close> was entered. A build of
  the Anlogic toolchain entered in \<open>/home/user\<close> with \<open>run\<close> requested and no \<open>td\<close> on
  the search path raises, and leaves the process in \<open>/home/user/build\<close>.
\<close>

theorem anlogic_build_leaves_cwd:
  "fst (anlogic_build ex_ext ex_env (init_toolchain []) ''build'' ''top'' True ex_world) =
     Inl (OSError anlogic_not_found) \<and>
   cwd ex_world = ''/home/user'' \<and>
   cwd (snd (anlogic_build ex_ext ex_env (init_toolchain []) ''build'' ''top'' True ex_world)) =
     ''/home/user/build''"
proof -
  let ?b = "anlogic_build ex_ext ex_env (init_toolchain []) ''build'' ''top'' True ex_world"
  have nf: "shutil_which ex_env ''td'' = None"
    by (simp add: ex_env_def)
  have r: "fst ?b = Inl (OSError anlogic_not_found)"
    unfolding anlogic_build_shape
    using build_shape_run [where emit = "anlogic_emit ex_ext ex_env (init_toolchain []) ''top''"
        and w = ex_world and d = "''build''"
        and runstep = "\<lambda>_. if True then anlogic_run ex_env else io_return ()"
        and g = "\<lambda>x. x", OF ex_anlogic_emit]
    by (simp add: anlogic_run_not_found [OF nf])
  have a: "isabs (cwd ex_world)"
    by (simp add: isabs_def ex_world_def)
  have "case fst ?b of Inl _ \<Rightarrow> cwd (snd ?b) = os_path_join (cwd ex_world) ''build''
        | Inr _ \<Rightarrow> cwd (snd ?b) = cwd ex_world"
    unfolding anlogic_build_shape
    by (rule build_shape_cwd [OF keeps_cwd_anlogic_emit _ a])
       (simp add: keeps_cwd_anlogic_run keeps_return)
  with r have c: "cwd (snd ?b) = ''/home/user/build''"
    by (simp add: os_path_join_def ex_world_def)
  from r c show ?thesis by (simp add: ex_world_def)
qed

text \<open>
  Claim C4, amended. For every toolchain, a build that returns has restored the
  working directory that was current when it was entered; a build that raises, at
  whatever step, leaves the process in the build directory. (The directory the build
  is entered in is an absolute path, as \<open>os.getcwd\<close> returns it.)
\<close>

theorem build_cwd:
  assumes "isabs (cwd w)"
  shows "(case fst (anlogic_build ext e self bd bn run w) of
            Inl _ \<Rightarrow> cwd (snd (anlogic_build ext e self bd bn run w)) = os_path_join (cwd w) bd
          | Inr _ \<Rightarrow> cwd (snd (anlogic_build ext e self bd bn run w)) = cwd w) \<and>
         (case fst (osfpga_build ext e self bd bn run w) of
            Inl _ \<Rightarrow> cwd (snd (osfpga_build ext e self bd bn run w)) = os_path_join (cwd w) bd
          | Inr _ \<Rightarrow> cwd (snd (osfpga_build ext e self bd bn run w)) = cwd w) \<and>
         (case fst (symbiflow_build ext e self bd bn run w) of
            Inl _ \<Rightarrow> cwd (snd (symbiflow_build ext e self bd bn run w)) = os_path_join (cwd w) bd
          | Inr _ \<Rightarrow> cwd (snd (symbiflow_build ext e self bd bn run w)) = cwd w) \<and>
         (case fst (microsemi_build ext e self bd bn run w) of
            Inl _ \<Rightarrow> cwd (snd (microsemi_build ext e self bd bn run w)) = os_path_join (cwd w) bd
          | Inr _ \<Rightarrow> cwd (snd (microsemi_build ext e self bd bn run w)) = cwd w)"
proof -
  have a: "case fst (anlogic_build ext e self bd bn run w) of
            Inl _ \<Rightarrow> cwd (snd (anlogic_build ext e self bd bn run w)) = os_path_join (cwd w) bd
          | Inr _ \<Rightarrow> cwd (snd (anlogic_build ext e self bd bn run w)) = cwd w"
    unfolding anlogic_build_shape
    by (rule build_shape_cwd [OF keeps_cwd_anlogic_emit _ assms])
       (simp add: keeps_cwd_anlogic_run keeps_return)
  have b: "case fst (osfpga_build ext e self bd bn run w) of
            Inl _ \<Rightarrow> cwd (snd (osfpga_build ext e self bd bn run w)) = os_path_join (cwd w) bd
          | Inr _ \<Rightarrow> cwd (snd (osfpga_build ext e self bd bn run w)) = cwd w"
    unfolding osfpga_build_shape
    by (rule build_shape_cwd [OF keeps_cwd_osfpga_emit _ assms])
       (simp add: keeps_cwd_osfpga_run keeps_return)
  have c: "case fst (symbiflow_build ext e self bd bn run w) of
            Inl _ \<Rightarrow> cwd (snd (symbiflow_build ext e self bd bn run w)) = os_path_join (cwd w) bd
          | Inr _ \<Rightarrow> cwd (snd (symbiflow_build ext e self bd bn run w)) = cwd w"
    unfolding symbiflow_build_shape
    by (rule build_shape_cwd [OF keeps_cwd_symbiflow_emit _ assms])
       (simp add: keeps_cwd_symbiflow_run_make keeps_return)
  have d: "case fst (microsemi_build ext e self bd bn run w) of
            Inl _ \<Rightarrow> cwd (snd (microsemi_build ext e self bd bn run w)) = os_path_join (cwd w) bd
          | Inr _ \<Rightarrow> cwd (snd (microsemi_build ext e self bd bn run w)) = cwd w"
    unfolding microsemi_build_shape
    by (rule build_shape_cwd [OF keeps_cwd_microsemi_emit _ assms])
       (simp add: keeps_cwd_microsemi_run keeps_return)
  from a b c d show ?thesis by (intro conjI)
qed

theorem build_cwd_witness:
  "isabs (cwd ex_world) \<and>
   (case fst (anlogic_build ex_ext ex_env (init_toolchain []) ''build'' ''top'' True ex_world) of
      Inl _ \<Rightarrow> cwd (snd (anlogic_build ex_ext ex_env (init_toolchain []) ''build'' ''top'' True
                           ex_world)) = os_path_join (cwd ex_world) ''build''
    | Inr _ \<Rightarrow> cwd (snd (anlogic_build ex_ext ex_env (init_toolchain []) ''build'' ''top'' True
                           ex_world)) = cwd ex_world)"
proof -
  have h: "isabs (cwd ex_world)"
    by (simp add: isabs_def ex_world_def)
  from build_cwd [OF h, of ex_ext ex_env "init_toolchain []" "''build''" "''top''" True] h
  show ?thesis by blast
qed

lemma build_shape_spawned:
  assumes "keeps spawned emit" and "\<And>x w2. spawned (snd (runstep x w2)) = spawned w2"
  shows "spawned (snd (build_shape d emit runstep g w)) = spawned w"
proof -
  let ?w1 = "w\<lparr>cwd := os_path_join (cwd w) d\<rparr>"
  have s: "spawned (snd (emit ?w1)) = spawned w"
    by (rule keeps_spawned_emit_at [OF assms(1)])
  show ?thesis
  proof (cases "fst (emit ?w1)")
    case (Inl err)
    with s show ?thesis by (simp add: build_shape_emit_fails)
  next
    case (Inr x)
    from build_shape_run [where emit = emit and w = w and d = d and runstep = runstep and g = g, OF Inr]
      s assms(2) show ?thesis by simp
  qed
qed

lemma build_shape_fails:
  assumes "\<And>x w2. \<exists>err. fst (runstep x w2) = Inl err"
  shows "\<exists>err. fst (build_shape d emit runstep g w) = Inl err"
proof (cases "fst (emit (w\<lparr>cwd := os_path_join (cwd w) d\<rparr>))")
  case (Inl err)
  then show ?thesis by (simp add: build_shape_emit_fails)
next
  case (Inr x)
  from assms [of x "snd (emit (w\<lparr>cwd := os_path_join (cwd w) d\<rparr>))"]
  obtain err where "fst (runstep x (snd (emit (w\<lparr>cwd := os_path_join (cwd w) d\<rparr>)))) = Inl err"
    by blast
  with build_shape_run [where emit = emit and w = w and d = d and runstep = runstep and g = g, OF Inr]
  show ?thesis by simp
qed

subsection \<open>The executable on the search path\<close>

text \<open>
  The Anlogic, OSFPGA and Symbiflow builds look for their executable before they start
  it. With \<open>run\<close> requested and the executable not found, the build raises and starts
  no subprocess; when the steps before the run succeed, the error is the one whose
  message asks to add the toolchain to \<open>$PATH\<close>.
\<close>

lemma anlogic_build_not_found:
  assumes "shutil_which e ''td'' = None"
  shows "(\<exists>err. fst (anlogic_build ext e self bd bn True w) = Inl err) \<and>
         spawned (snd (anlogic_build ext e self bd bn True w)) = spawned w \<and>
         (fst (anlogic_emit ext e self bn (w\<lparr>cwd := os_path_join (cwd w) bd\<rparr>)) = Inr x \<longrightarrow>
          fst (anlogic_build ext e self bd bn True w) = Inl (OSError anlogic_not_found)) \<and>
         sublist ''to your $PATH'' anlogic_not_found"
proof -
  have f: "\<exists>err. fst (anlogic_build ext e self bd bn True w) = Inl err"
    unfolding anlogic_build_shape
    by (rule build_shape_fails) (simp add: anlogic_run_not_found [OF assms])
  have s: "spawned (snd (anlogic_build ext e self bd bn True w)) = spawned w"
    unfolding anlogic_build_shape
    by (rule build_shape_spawned [OF keeps_spawned_anlogic_emit])
       (simp add: anlogic_run_not_found [OF assms])
  have r: "fst (anlogic_build ext e self bd bn True w) = Inl (OSError anlogic_not_found)"
    if "fst (anlogic_emit ext e self bn (w\<lparr>cwd := os_path_join (cwd w) bd\<rparr>)) = Inr x"
    unfolding anlogic_build_shape
    using build_shape_run [where emit = "anlogic_emit ext e self bn" and w = w and d = bd
        and runstep = "\<lambda>_. if True then anlogic_run e else io_return ()" and g = "\<lambda>x. x", OF that]
    by (simp add: anlogic_run_not_found [OF assms])
  have m: "sublist ''to your $PATH'' anlogic_not_found"
    by code_simp
  from f s r m show ?thesis by blast
qed

lemma osfpga_not_found_names_path: "sublist ''to your $PATH'' (osfpga_not_found e sh)"
proof -
  have "osfpga_not_found e sh =
    (''Unable to find '' @ str_upper e sh @ '' toolchain, please:'' @ ''\<newline>'' @
     ''- Add '' @ str_upper e sh @ '' toolchain '') @ ''to your $PATH'' @ ''.''"
    by (simp add: osfpga_not_found_def)
  then show ?thesis
    unfolding sublist_def by blast
qed

lemma osfpga_build_not_found:
  assumes "shutil_which e (toolchain_sh self) = None"
  shows "(\<exists>err. fst (osfpga_build ext e self bd bn True w) = Inl err) \<and>
         spawned (snd (osfpga_build ext e self bd bn True w)) = spawned w \<and>
         (fst (osfpga_emit ext e self bn (w\<lparr>cwd := os_path_join (cwd w) bd\<rparr>)) = Inr x \<longrightarrow>
          fst (osfpga_build ext e self bd bn True w) =
            Inl (OSError (osfpga_not_found e (toolchain_sh self)))) \<and>
         sublist ''to your $PATH'' (osfpga_not_found e (toolchain_sh self))"
proof -
  have f: "\<exists>err. fst (osfpga_build ext e self bd bn True w) = Inl err"
    unfolding osfpga_build_shape
    by (rule build_shape_fails) (simp add: osfpga_run_not_found [OF assms])
  have s: "spawned (snd (osfpga_build ext e self bd bn True w)) = spawned w"
    unfolding osfpga_build_shape
    by (rule build_shape_spawned [OF keeps_spawned_osfpga_emit])
       (simp add: osfpga_run_not_found [OF assms])
  have r: "fst (osfpga_build ext e self bd bn True w) =
             Inl (OSError (osfpga_not_found e (toolchain_sh self)))"
    if "fst (osfpga_emit ext e self bn (w\<lparr>cwd := os_path_join (cwd w) bd\<rparr>)) = Inr x"
    unfolding osfpga_build_shape
    using build_shape_run [where emit = "osfpga_emit ext e self bn" and w = w and d = bd
        and runstep = "\<lambda>_. if True then osfpga_run e self else io_return ()" and g = "\<lambda>x. x", OF that]
    by (simp add: osfpga_run_not_found [OF assms])
  from f s r osfpga_not_found_names_path show ?thesis by blast
qed

lemma symbiflow_build_not_found:
  assumes "shutil_which e ''ql_symbiflow'' = None"
  shows "(\<exists>err. fst (symbiflow_build ext e self bd bn True w) = Inl err) \<and>
         spawned (snd (symbiflow_build ext e self bd bn True w)) = spawned w \<and>
         (fst (symbiflow_emit ext e self bn (w\<lparr>cwd := os_path_join (cwd w) bd\<rparr>)) = Inr x \<longrightarrow>
          fst (symbiflow_build ext e self bd bn True w) = Inl (OSError symbiflow_not_found)) \<and>
         sublist ''to your $PATH'' symbiflow_not_found"
proof -
  have f: "\<exists>err. fst (symbiflow_build ext e self bd bn True w) = Inl err"
    unfolding symbiflow_build_shape
    by (rule build_shape_fails) (simp add: symbiflow_run_not_found [OF assms])
  have s: "spawned (snd (symbiflow_build ext e self bd bn True w)) = spawned w"
    unfolding symbiflow_build_shape
    by (rule build_shape_spawned [OF keeps_spawned_symbiflow_emit])
       (simp add: symbiflow_run_not_found [OF assms])
  have r: "fst (symbiflow_build ext e self bd bn True w) = Inl (OSError symbiflow_not_found)"
    if "fst (symbiflow_emit ext e self bn (w\<lparr>cwd := os_path_join (cwd w) bd\<rparr>)) = Inr x"
    unfolding symbiflow_build_shape
    using build_shape_run [where emit = "symbiflow_emit ext e self bn" and w = w and d = bd
        and runstep = "\<lambda>_. if True then symbiflow_run_make e else io_return ()" and g = "\<lambda>x. x", OF that]
    by (simp add: symbiflow_run_not_found [OF assms])
  have m: "sublist ''to your $PATH'' symbiflow_not_found"
    by code_simp
  from f s r m show ?thesis by blast
qed


text \<open>The Microsemi build does not depend on what the search path holds.\<close>

lemma microsemi_listing_which:
  "microsemi_listing (e\<lparr>shutil_which := wh\<rparr>) bd = microsemi_listing e bd"
  by (simp add: microsemi_listing_def split: sum.split)

lemma microsemi_emit_which:
  "microsemi_emit ext (e\<lparr>shutil_which := wh\<rparr>) self bd bn = microsemi_emit ext e self bd bn"
  by (simp add: microsemi_emit_def generate_verilog_def microsemi_listing_which)

lemma microsemi_run_which:
  "microsemi_run (e\<lparr>shutil_which := wh\<rparr>) script = microsemi_run e script"
  by (simp add: microsemi_run_def microsemi_run_script_def microsemi_command_def
      subprocess_call_def)

lemma microsemi_build_ignores_search_path:
  "microsemi_build ext (e\<lparr>shutil_which := wh\<rparr>) self bd bn run =
   microsemi_build ext e self bd bn run"
  by (simp add: microsemi_build_def microsemi_emit_which microsemi_run_which cong: if_cong)


subsection \<open>The exit status\<close>

text \<open>
  When the steps before the run succeed and the executable is found, the Anlogic,
  OSFPGA and Symbiflow builds raise an error that names the vendor if the subprocess
  exits with a non-zero status and return otherwise; without \<open>run\<close> they return.
\<close>

lemma anlogic_build_status:
  assumes "fst (anlogic_emit ext e self bn (w\<lparr>cwd := os_path_join (cwd w) bd\<rparr>)) = Inr x"
    and "shutil_which e ''td'' = Some path"
  shows "fst (anlogic_build ext e self bd bn True w) =
           (if subprocess_status e [''td'', ''run.tcl''] \<noteq> 0 then Inl (OSError anlogic_failed)
            else Inr x) \<and>
         fst (anlogic_build ext e self bd bn False w) = Inr x \<and>
         sublist ''Tang Dinasty'' anlogic_failed"
proof -
  have t: "fst (anlogic_build ext e self bd bn True w) =
           (if subprocess_status e [''td'', ''run.tcl''] \<noteq> 0 then Inl (OSError anlogic_failed)
            else Inr x)"
    unfolding anlogic_build_shape
    using build_shape_run [where emit = "anlogic_emit ext e self bn" and w = w and d = bd
        and runstep = "\<lambda>_. if True then anlogic_run e else io_return ()" and g = "\<lambda>x. x",
        OF assms(1)]
    by (simp add: anlogic_run_found [OF assms(2)])
  have f: "fst (anlogic_build ext e self bd bn False w) = Inr x"
    unfolding anlogic_build_shape
    using build_shape_run [where emit = "anlogic_emit ext e self bn" and w = w and d = bd
        and runstep = "\<lambda>_. if False then anlogic_run e else io_return ()" and g = "\<lambda>x. x",
        OF assms(1)]
    by (simp add: io_return_def)
  have m: "sublist ''Tang Dinasty'' anlogic_failed"
    by code_simp
  from t f m show ?thesis by (intro conjI)
qed

lemma osfpga_failed_names_toolchain: "sublist (str_upper e sh) (osfpga_failed e sh)"
proof -
  have "osfpga_failed e sh =
    ''Error occured during '' @ str_upper e sh @ (CHR 0x27 # ''s script execution.'')"
    by (simp add: osfpga_failed_def)
  then show ?thesis
    unfolding sublist_def by blast
qed

lemma osfpga_build_status:
  assumes "fst (osfpga_emit ext e self bn (w\<lparr>cwd := os_path_join (cwd w) bd\<rparr>)) = Inr x"
    and "shutil_which e (toolchain_sh self) = Some path"
  shows "fst (osfpga_build ext e self bd bn True w) =
           (if subprocess_status e [toolchain_sh self, ''--batch'', ''--script'', ''build.tcl''] \<noteq> 0
            then Inl (OSError (osfpga_failed e (toolchain_sh self))) else Inr x) \<and>
         fst (osfpga_build ext e self bd bn False w) = Inr x \<and>
         sublist (str_upper e (toolchain_sh self)) (osfpga_failed e (toolchain_sh self))"
proof -
  have t: "fst (osfpga_build ext e self bd bn True w) =
           (if subprocess_status e [toolchain_sh self, ''--batch'', ''--script'', ''build.tcl''] \<noteq> 0
            then Inl (OSError (osfpga_failed e (toolchain_sh self))) else Inr x)"
    unfolding osfpga_build_shape
    using build_shape_run [where emit = "osfpga_emit ext e self bn" and w = w and d = bd
        and runstep = "\<lambda>_. if True then osfpga_run e self else io_return ()" and g = "\<lambda>x. x",
        OF assms(1)]
    by (simp add: osfpga_run_found [OF assms(2)])
  have f: "fst (osfpga_build ext e self bd bn False w) = Inr x"
    unfolding osfpga_build_shape
    using build_shape_run [where emit = "osfpga_emit ext e self bn" and w = w and d = bd
        and runstep = "\<lambda>_. if False then osfpga_run e self else io_return ()" and g = "\<lambda>x. x",
        OF assms(1)]
    by (simp add: io_return_def)
  from t f osfpga_failed_names_toolchain show ?thesis by (intro conjI)
qed

lemma symbiflow_build_status:
  assumes "fst (symbiflow_emit ext e self bn (w\<lparr>cwd := os_path_join (cwd w) bd\<rparr>)) = Inr x"
    and "shutil_which e ''ql_symbiflow'' = Some path"
  shows "fst (symbiflow_build ext e self bd bn True w) =
           (if subprocess_status e [''make'', ''-j1''] \<noteq> 0 then Inl (OSError symbiflow_failed)
            else Inr x) \<and>
         fst (symbiflow_build ext e self bd bn False w) = Inr x \<and>
         sublist ''QuickLogic Symbiflow'' symbiflow_failed"
proof -
  have t: "fst (symbiflow_build ext e self bd bn True w) =
           (if subprocess_status e [''make'', ''-j1''] \<noteq> 0 then Inl (OSError symbiflow_failed)
            else Inr x)"
    unfolding symbiflow_build_shape
    using build_shape_run [where emit = "symbiflow_emit ext e self bn" and w = w and d = bd
        and runstep = "\<lambda>_. if True then symbiflow_run_make e else io_return ()"
        and g = "\<lambda>x. x", OF assms(1)]
    by (simp add: symbiflow_run_found [OF assms(2)])
  have f: "fst (symbiflow_build ext e self bd bn False w) = Inr x"
    unfolding symbiflow_build_shape
    using build_shape_run [where emit = "symbiflow_emit ext e self bn" and w = w and d = bd
        and runstep = "\<lambda>_. if False then symbiflow_run_make e else io_return ()"
        and g = "\<lambda>x. x", OF assms(1)]
    by (simp add: io_return_def)
  have m: "sublist ''QuickLogic Symbiflow'' symbiflow_failed"
    by code_simp
  from t f m show ?thesis by (intro conjI)
qed

lemma microsemi_build_no_run:
  assumes "fst (microsemi_emit ext e self bd bn (w\<lparr>cwd := os_path_join (cwd w) bd\<rparr>)) =
             Inr (vns, script)"
  shows "fst (microsemi_build ext e self bd bn False w) = Inr vns"
  unfolding microsemi_build_shape
  using build_shape_run [where emit = "microsemi_emit ext e self bd bn" and w = w and d = bd
      and runstep = "\<lambda>x. if False then microsemi_run e (snd x) else io_return ()" and g = fst,
      OF assms]
  by (simp add: io_return_def)


section \<open>Properties of the Efinix PLL\<close>

lemma create_clkout_step:
  assumes "create_clkout ext request self a = (r, self')"
  shows "pll_class self' = pll_class self \<and>
         nclkouts self' = nclkouts self + (if r = Inr () then 1 else 0) \<and>
         length (clk_out self') = length (clk_out self) + (if r = Inr () then 1 else 0) \<and>
         (r = Inr () \<longrightarrow> nclkouts self < nclkouts_max (pll_class self))"
  using assms
  by (cases a) (auto simp: create_clkout_def Let_def split: if_splits option.splits)

lemma create_clkout_assertion:
  "fst (create_clkout ext request self a) = Inl AssertionError \<longleftrightarrow>
     \<not> nclkouts self < nclkouts_max (pll_class self)"
  by (cases a) (auto simp: create_clkout_def Let_def split: if_splits option.splits)

lemma create_clkout_asserts_first:
  "\<not> nclkouts self < nclkouts_max (pll_class self) \<Longrightarrow>
   create_clkout ext request self a = (Inl AssertionError, self)"
  by (cases a) (simp add: create_clkout_def)

lemma returned_Cons: "returned (r # rs) = (if r = Inr () then 1 else 0) + returned rs"
  by (simp add: returned_def)

lemma returned_le: "returned rs \<le> length rs"
  by (simp add: returned_def)

lemma create_clkouts_inv:
  assumes "create_clkouts ext request self as = (rs, self')"
    and "nclkouts self \<le> nclkouts_max (pll_class self)"
  shows "pll_class self' = pll_class self \<and>
         nclkouts self' = nclkouts self + returned rs \<and>
         length (clk_out self') = length (clk_out self) + returned rs \<and>
         nclkouts self' \<le> nclkouts_max (pll_class self) \<and>
         length rs = length as"
  using assms
proof (induction as arbitrary: self rs)
  case Nil
  then show ?case by (simp add: returned_def)
next
  case (Cons a as)
  obtain r self1 where a: "create_clkout ext request self a = (r, self1)"
    by (cases "create_clkout ext request self a")
  obtain rs1 where rest: "create_clkouts ext request self1 as = (rs1, self')" and rs: "rs = r # rs1"
    using Cons.prems(1) a by (auto split: prod.splits)
  note s = create_clkout_step [OF a]
  from s Cons.prems(2) have le: "nclkouts self1 \<le> nclkouts_max (pll_class self1)"
    by (auto split: if_splits)
  from Cons.IH [OF rest le] s show ?case
    unfolding rs returned_Cons by (auto split: if_splits)
qed

text \<open>
  Claim C10. After any sequence of \<open>create_clkout\<close> calls on a new PLL instance,
  \<open>nclkouts\<close> is the number of those calls that returned, and so is the number of
  outputs in the block; it never exceeds \<open>nclkouts_max\<close>, which is 3 for \<open>TRIONPLL\<close>
  and 5 for \<open>TITANIUMPLL\<close>. The next call fails its assertion exactly when \<open>nclkouts\<close>
  has reached \<open>nclkouts_max\<close>, and then it changes nothing; after fewer than
  \<open>nclkouts_max\<close> calls the assertion does not fail.
\<close>

theorem pll_clkouts:
  assumes "create_clkouts ext request (init_pll c n) as = (rs, self)"
  shows "nclkouts_max TRIONPLL = 3 \<and> nclkouts_max TITANIUMPLL = 5 \<and>
         nclkouts self = returned rs \<and> returned rs \<le> length as \<and>
         length (clk_out self) = nclkouts self \<and>
         nclkouts self \<le> nclkouts_max c \<and>
         (fst (create_clkout ext request self a) = Inl AssertionError \<longleftrightarrow>
            nclkouts self = nclkouts_max c) \<and>
         (nclkouts self = nclkouts_max c \<longrightarrow>
            create_clkout ext request self a = (Inl AssertionError, self)) \<and>
         (length as < nclkouts_max c \<longrightarrow>
            fst (create_clkout ext request self a) \<noteq> Inl AssertionError)"
proof -
  have le0: "nclkouts (init_pll c n) \<le> nclkouts_max (pll_class (init_pll c n))"
    by (simp add: init_pll_def)
  from create_clkouts_inv [OF assms le0]
  have cls: "pll_class self = c" and cnt: "nclkouts self = returned rs"
    and out: "length (clk_out self) = returned rs" and le: "nclkouts self \<le> nclkouts_max c"
    and len: "length rs = length as"
    by (simp_all add: init_pll_def)
  from returned_le [of rs] len have rl: "returned rs \<le> length as" by simp
  have ass: "fst (create_clkout ext request self a) = Inl AssertionError \<longleftrightarrow>
            nclkouts self = nclkouts_max c"
    using le by (auto simp: create_clkout_assertion cls)
  have first: "nclkouts self = nclkouts_max c \<longrightarrow>
            create_clkout ext request self a = (Inl AssertionError, self)"
    by (simp add: create_clkout_asserts_first cls)
  have fewer: "length as < nclkouts_max c \<longrightarrow>
            fst (create_clkout ext request self a) \<noteq> Inl AssertionError"
    using ass cnt rl by auto
  from cnt rl out le ass first fewer show ?thesis by simp
qed

theorem pll_clkouts_witness:
  "nclkouts (snd (create_clkouts ex_ext (\<lambda>_. None) (init_pll TRIONPLL 0) [ex_clkout, ex_clkout])) = 2 \<and>
   length [ex_clkout, ex_clkout] < nclkouts_max TRIONPLL \<and>
   fst (create_clkout ex_ext (\<lambda>_. None)
          (snd (create_clkouts ex_ext (\<lambda>_. None) (init_pll TRIONPLL 0) [ex_clkout, ex_clkout]))
          ex_clkout) \<noteq> Inl AssertionError"
proof -
  let ?R = "create_clkouts ex_ext (\<lambda>_. None) (init_pll TRIONPLL 0) [ex_clkout, ex_clkout]"
  have h: "?R = (fst ?R, snd ?R)"
    by simp
  have r: "fst ?R = [Inr (), Inr ()]"
    by (simp add: create_clkout_def ex_clkout_def init_pll_def Let_def)
  have l: "length [ex_clkout, ex_clkout] < nclkouts_max TRIONPLL"
    by simp
  from pll_clkouts [OF h, of ex_clkout] r l show ?thesis
    by (simp add: returned_def)
qed

end
